theory Spec2Isabelle
  imports Complex_Main "HOL-Library.AList" "HOL-Library.Multiset"
begin

section \<open>The persisted schema\<close>

text \<open>
  The tables of the SQL migrations, as lists of rows. Columns that take a server default
  and that no code of the repository reads back (\<open>employee_location_assignments.id\<close>
  and its \<open>created_at\<close>) are left out. Timestamps are numbers (milliseconds), identifiers
  are strings, and the numeric columns of a location hold JavaScript numbers.
\<close>

text \<open>
  A JavaScript number: an IEEE double, of which the model keeps the order and the three
  special values; a finite value is a real (rounding to the nearest double is not
  modelled). Every comparison with \<open>NaN\<close> is false.
\<close>

datatype jsnum = NaN | NegInf | Fin real | PosInf

fun js_le :: "jsnum \<Rightarrow> jsnum \<Rightarrow> bool" where
  "js_le NaN _ = False"
| "js_le _ NaN = False"
| "js_le NegInf _ = True"
| "js_le _ PosInf = True"
| "js_le (Fin a) (Fin b) = (a \<le> b)"
| "js_le _ _ = False"

fun js_lt :: "jsnum \<Rightarrow> jsnum \<Rightarrow> bool" where
  "js_lt NaN _ = False"
| "js_lt _ NaN = False"
| "js_lt PosInf _ = False"
| "js_lt _ NegInf = False"
| "js_lt (Fin a) (Fin b) = (a < b)"
| "js_lt _ _ = True"

definition js_ge :: "jsnum \<Rightarrow> jsnum \<Rightarrow> bool" where
  "js_ge a b = js_le b a"

definition js_gt :: "jsnum \<Rightarrow> jsnum \<Rightarrow> bool" where
  "js_gt a b = js_lt b a"

record employee =
  emp_id :: string          \<comment> \<open>\<open>employees.id\<close>\<close>
  emp_name :: string        \<comment> \<open>\<open>employees.name\<close>\<close>
  emp_code :: string        \<comment> \<open>\<open>employees.employee_id\<close>, the human-readable code\<close>

record geofence_location =
  loc_id :: string
  loc_name :: string
  loc_address :: string
  latitude :: jsnum
  longitude :: jsnum
  radius :: jsnum
  created_at :: int
  updated_at :: int

record assignment =
  employee_id :: string
  location_id :: string

text \<open>
  Every call to the hosted backend is a request. The backend may refuse a request for a
  reason that lies outside the schema (transport failure, a value the column's type
  rejects): \<open>faults\<close> gives the error message of such a refusal, if any. The
  row-level-security policies of \<open>geofence_locations\<close> and
  \<open>employee_location_assignments\<close> are \<open>USING (true) WITH CHECK (true)\<close>, so they
  refuse nothing. The database records the requests it was sent, in order.
\<close>

datatype request =
    SelectLocations
  | SelectAssignments string
  | DeleteLocation string
  | UpdateLocation string
  | InsertLocation
  | DeleteAssignmentsByLocation string
  | DeleteAssignmentsByEmployee string
  | InsertAssignments "(string \<times> string) list"

type_synonym faults = "request \<Rightarrow> string option"

record database =
  employees :: "employee list"
  geofence_locations :: "geofence_location list"
  employee_location_assignments :: "assignment list"
  requests :: "request list"

definition pair_of :: "assignment \<Rightarrow> string \<times> string" where
  "pair_of a = (employee_id a, location_id a)"

definition row_of :: "string \<times> string \<Rightarrow> assignment" where
  "row_of p = \<lparr>employee_id = fst p, location_id = snd p\<rparr>"

definition sent :: "request \<Rightarrow> database \<Rightarrow> database" where
  "sent r db = db\<lparr>requests := requests db @ [r]\<rparr>"

text \<open>
  \<open>INSERT\<close> of a batch of assignment rows: one statement, so it adds every row or none.
  The table's constraints are the two foreign keys and \<open>UNIQUE(employee_id, location_id)\<close>.
\<close>

definition insert_assignments ::
  "faults \<Rightarrow> (string \<times> string) list \<Rightarrow> database \<Rightarrow> string option \<times> database" where
  "insert_assignments f rows db =
     (let db1 = sent (InsertAssignments rows) db in
      case f (InsertAssignments rows) of
        Some e \<Rightarrow> (Some e, db1)
      | None \<Rightarrow>
          if \<not> list_all (\<lambda>p. fst p \<in> set (map emp_id (employees db))) rows
          then (Some ''violates foreign key constraint on employee_id'', db1)
          else if \<not> list_all (\<lambda>p. snd p \<in> set (map loc_id (geofence_locations db))) rows
          then (Some ''violates foreign key constraint on location_id'', db1)
          else if \<not> distinct (map pair_of (employee_location_assignments db) @ rows)
          then (Some ''duplicate key value violates unique constraint'', db1)
          else (None, db1\<lparr>employee_location_assignments :=
                  employee_location_assignments db @ map row_of rows\<rparr>))"

text \<open>
  The three callers insert only a non-empty selection
  (\<open>if (selection && selection.length > 0)\<close>); an empty one sends no request.
\<close>

definition insert_selected ::
  "faults \<Rightarrow> (string \<times> string) list \<Rightarrow> database \<Rightarrow> string option \<times> database" where
  "insert_selected f rows db = (if rows \<noteq> [] then insert_assignments f rows db else (None, db))"

text \<open>\<open>DELETE FROM employee_location_assignments WHERE location_id = l\<close>.\<close>

definition delete_assignments_by_location ::
  "faults \<Rightarrow> string \<Rightarrow> database \<Rightarrow> string option \<times> database" where
  "delete_assignments_by_location f l db =
     (let db1 = sent (DeleteAssignmentsByLocation l) db in
      case f (DeleteAssignmentsByLocation l) of
        Some e \<Rightarrow> (Some e, db1)
      | None \<Rightarrow> (None, db1\<lparr>employee_location_assignments :=
                  filter (\<lambda>a. location_id a \<noteq> l) (employee_location_assignments db)\<rparr>))"

text \<open>\<open>DELETE FROM employee_location_assignments WHERE employee_id = e\<close>.\<close>

definition delete_assignments_by_employee ::
  "faults \<Rightarrow> string \<Rightarrow> database \<Rightarrow> string option \<times> database" where
  "delete_assignments_by_employee f e db =
     (let db1 = sent (DeleteAssignmentsByEmployee e) db in
      case f (DeleteAssignmentsByEmployee e) of
        Some err \<Rightarrow> (Some err, db1)
      | None \<Rightarrow> (None, db1\<lparr>employee_location_assignments :=
                  filter (\<lambda>a. employee_id a \<noteq> e) (employee_location_assignments db)\<rparr>))"

text \<open>
  \<open>DELETE FROM geofence_locations WHERE id = l\<close>. The assignment table's foreign key on
  \<open>location_id\<close> is declared \<open>ON DELETE CASCADE\<close>, so the rows that reference the
  location go with it.
\<close>

definition delete_location ::
  "faults \<Rightarrow> string \<Rightarrow> database \<Rightarrow> string option \<times> database" where
  "delete_location f l db =
     (let db1 = sent (DeleteLocation l) db in
      case f (DeleteLocation l) of
        Some e \<Rightarrow> (Some e, db1)
      | None \<Rightarrow> (None, db1\<lparr>
          geofence_locations := filter (\<lambda>g. loc_id g \<noteq> l) (geofence_locations db),
          employee_location_assignments :=
            filter (\<lambda>a. location_id a \<noteq> l) (employee_location_assignments db)\<rparr>))"

text \<open>
  \<open>UPDATE geofence_locations SET ... WHERE id = l\<close> with the columns of the form and
  \<open>updated_at\<close>. A statement that matches no row is not an error.
\<close>

record location_form =
  form_name :: string
  form_address :: string
  form_latitude :: jsnum
  form_longitude :: jsnum
  form_radius :: jsnum
  assignedEmployees :: "string list"

definition update_location ::
  "faults \<Rightarrow> string \<Rightarrow> location_form \<Rightarrow> int \<Rightarrow> database \<Rightarrow> string option \<times> database" where
  "update_location f l d now db =
     (let db1 = sent (UpdateLocation l) db in
      case f (UpdateLocation l) of
        Some e \<Rightarrow> (Some e, db1)
      | None \<Rightarrow> (None, db1\<lparr>geofence_locations :=
          map (\<lambda>g. if loc_id g = l
                 then g\<lparr>loc_name := form_name d, loc_address := form_address d,
                        latitude := form_latitude d, longitude := form_longitude d,
                        radius := form_radius d, updated_at := now\<rparr>
                 else g)
              (geofence_locations db)\<rparr>))"

text \<open>
  \<open>INSERT INTO geofence_locations ... RETURNING *\<close>. The server draws the primary key
  (\<open>uuid_generate_v4()\<close>), here \<open>fresh\<close>; a key already in the table is refused.
\<close>

definition insert_location ::
  "faults \<Rightarrow> string \<Rightarrow> location_form \<Rightarrow> int \<Rightarrow> database
     \<Rightarrow> (string + geofence_location) \<times> database" where
  "insert_location f fresh d now db =
     (let db1 = sent InsertLocation db;
          g = \<lparr>loc_id = fresh, loc_name = form_name d, loc_address = form_address d,
               latitude = form_latitude d, longitude = form_longitude d,
               radius = form_radius d, created_at = now, updated_at = now\<rparr> in
      case f InsertLocation of
        Some e \<Rightarrow> (Inl e, db1)
      | None \<Rightarrow>
          if fresh \<in> set (map loc_id (geofence_locations db))
          then (Inl ''duplicate key value violates unique constraint'', db1)
          else (Inr g, db1\<lparr>geofence_locations := geofence_locations db @ [g]\<rparr>))"

text \<open>
  \<open>SELECT * FROM geofence_locations ORDER BY created_at DESC\<close>. Rows of equal
  \<open>created_at\<close> stay in table order.
\<close>

definition select_locations ::
  "faults \<Rightarrow> database \<Rightarrow> (string + geofence_location list) \<times> database" where
  "select_locations f db =
     (let db1 = sent SelectLocations db in
      case f SelectLocations of
        Some e \<Rightarrow> (Inl e, db1)
      | None \<Rightarrow> (Inr (sort_key (\<lambda>g. - created_at g) (geofence_locations db)), db1))"

text \<open>
  \<open>select("employee_id, employees(name, employee_id)").eq("location_id", l)\<close>: the
  assignment rows of a location, each with its employee's name and code embedded (null
  when no employee row matches).
\<close>

definition embedded_employee :: "database \<Rightarrow> string \<Rightarrow> (string \<times> string) option" where
  "embedded_employee db e =
     map_option (\<lambda>x. (emp_name x, emp_code x)) (find (\<lambda>x. emp_id x = e) (employees db))"

definition select_assignments ::
  "faults \<Rightarrow> string \<Rightarrow> database
     \<Rightarrow> (string + (string \<times> (string \<times> string) option) list) \<times> database" where
  "select_assignments f l db =
     (let db1 = sent (SelectAssignments l) db in
      case f (SelectAssignments l) of
        Some e \<Rightarrow> (Inl e, db1)
      | None \<Rightarrow>
          (Inr (map (\<lambda>a. (employee_id a, embedded_employee db (employee_id a)))
                  (filter (\<lambda>a. location_id a = l) (employee_location_assignments db))), db1))"

section \<open>The locations page\<close>

record toast =
  title :: string
  description :: string
  destructive :: bool

text \<open>
  A location as the page holds it: the row, and the two lists \<open>fetchLocations\<close> attaches
  (absent when the assignment query of that location failed).
\<close>

record location_item =
  row :: geofence_location
  assigned_employees :: "string list option"
  employee_details :: "(string \<times> string) option list option"

record locations_page =
  locations :: "location_item list"
  isLoading :: bool
  selectedLocation :: "location_item option"
  isDialogOpen :: bool
  activeTab :: string
  searchQuery :: string
  toasts :: "toast list"

definition toast_success :: "string \<Rightarrow> toast" where
  "toast_success d = \<lparr>title = ''Success'', description = d, destructive = False\<rparr>"

definition toast_error :: "string \<Rightarrow> toast" where
  "toast_error d = \<lparr>title = ''Error'', description = d, destructive = True\<rparr>"

definition add_toast :: "toast \<Rightarrow> locations_page \<Rightarrow> locations_page" where
  "add_toast t pg = pg\<lparr>toasts := toasts pg @ [t]\<rparr>"

text \<open>The callback of \<open>fetchLocations\<close> for one location.\<close>

definition with_employees ::
  "faults \<Rightarrow> geofence_location \<Rightarrow> database \<Rightarrow> location_item \<times> database" where
  "with_employees f g db =
     (case select_assignments f (loc_id g) db of
        (Inl e, db1) \<Rightarrow>
          (\<lparr>row = g, assigned_employees = None, employee_details = None\<rparr>, db1)
      | (Inr assignmentsData, db1) \<Rightarrow>
          (\<lparr>row = g, assigned_employees = Some (map fst assignmentsData),
            employee_details = Some (map snd assignmentsData)\<rparr>, db1))"

fun locationsWithEmployees ::
  "faults \<Rightarrow> geofence_location list \<Rightarrow> database \<Rightarrow> location_item list \<times> database" where
  "locationsWithEmployees f [] db = ([], db)"
| "locationsWithEmployees f (g # gs) db =
     (let (item, db1) = with_employees f g db;
          (items, db2) = locationsWithEmployees f gs db1
      in (item # items, db2))"

definition fetchLocations ::
  "faults \<Rightarrow> database \<Rightarrow> locations_page \<Rightarrow> database \<times> locations_page" where
  "fetchLocations f db pg =
     (let pg1 = pg\<lparr>isLoading := True\<rparr> in
      case select_locations f db of
        (Inl e, db1) \<Rightarrow>
          (db1, (add_toast (toast_error ''Failed to load geofence locations'') pg1)
                  \<lparr>isLoading := False\<rparr>)
      | (Inr locationsData, db1) \<Rightarrow>
          (let (items, db2) = locationsWithEmployees f locationsData db1
           in (db2, pg1\<lparr>locations := items, isLoading := False\<rparr>)))"

text \<open>\<open>confirmed\<close> is the operator's answer to the confirmation prompt.\<close>

definition handleDeleteLocation ::
  "faults \<Rightarrow> bool \<Rightarrow> string \<Rightarrow> database \<Rightarrow> locations_page \<Rightarrow> database \<times> locations_page" where
  "handleDeleteLocation f confirmed locationId db pg =
     (if \<not> confirmed then (db, pg)
      else case delete_location f locationId db of
        (Some e, db1) \<Rightarrow> (db1, add_toast (toast_error ''Failed to delete location'') pg)
      | (None, db1) \<Rightarrow>
          fetchLocations f db1 (add_toast (toast_success ''Location deleted successfully'') pg))"

definition save_failed :: "string \<Rightarrow> locations_page \<Rightarrow> locations_page" where
  "save_failed e pg = add_toast (toast_error (''Failed to save location: '' @ e)) pg"

text \<open>
  \<open>handleSubmitLocation\<close>: with a selected location the form updates it and replaces its
  assignment rows; without one it creates a location. \<open>now\<close> is the clock and
  \<open>fresh\<close> the key the server draws for a new row. The refresh of the list that
  follows a success is started without being awaited; here it runs at once.
\<close>

definition handleSubmitLocation ::
  "faults \<Rightarrow> int \<Rightarrow> string \<Rightarrow> location_form \<Rightarrow> database \<Rightarrow> locations_page
     \<Rightarrow> database \<times> locations_page" where
  "handleSubmitLocation f now fresh formData db pg =
     (case selectedLocation pg of
        Some sel \<Rightarrow>
          (let l = loc_id (row sel);
               d = formData\<lparr>form_address :=
                     (if form_address formData \<noteq> [] then form_address formData
                      else loc_address (row sel))\<rparr> in
           case update_location f l d now db of
             (Some e, db1) \<Rightarrow> (db1, save_failed e pg)
           | (None, db1) \<Rightarrow>
               (case delete_assignments_by_location f l db1 of
                  (Some e, db2) \<Rightarrow> (db2, save_failed e pg)
                | (None, db2) \<Rightarrow>
                    (case insert_selected f
                            (map (\<lambda>employeeId. (employeeId, l)) (assignedEmployees formData)) db2 of
                       (Some e, db3) \<Rightarrow> (db3, save_failed e pg)
                     | (None, db3) \<Rightarrow>
                         fetchLocations f db3
                           ((add_toast (toast_success ''Location updated successfully'') pg)
                              \<lparr>isDialogOpen := False\<rparr>))))
      | None \<Rightarrow>
          (case insert_location f fresh formData now db of
             (Inl e, db1) \<Rightarrow> (db1, save_failed e pg)
           | (Inr newLocation, db1) \<Rightarrow>
               (case insert_selected f
                       (map (\<lambda>employeeId. (employeeId, loc_id newLocation))
                          (assignedEmployees formData)) db1 of
                  (Some e, db2) \<Rightarrow> (db2, save_failed e pg)
                | (None, db2) \<Rightarrow>
                    fetchLocations f db2
                      ((add_toast (toast_success ''Location added successfully'') pg)
                         \<lparr>isDialogOpen := False\<rparr>))))"

section \<open>The employee-side assignment dialog\<close>

text \<open>
  The dialog's state: the employee id it was opened for, the in-progress selection,
  \<open>isLoading\<close> (\<open>dlgLoading\<close>), the parent's \<open>open\<close> flag, which the dialog
  clears through \<open>onOpenChange\<close> (\<open>dlgOpen\<close>), and the toasts shown.
\<close>

record assignment_dialog =
  empId :: "string option"
  selectedLocations :: "string list"
  dlgLoading :: bool
  dlgOpen :: bool
  dlgToasts :: "toast list"

text \<open>\<open>employee?.id || employeeId\<close>: an empty string is falsy.\<close>

definition empId_of :: "string option \<Rightarrow> string option \<Rightarrow> string option" where
  "empId_of employee_id_prop employeeId =
     (case employee_id_prop of
        Some i \<Rightarrow> (if i \<noteq> [] then Some i else employeeId)
      | None \<Rightarrow> employeeId)"

definition handleToggleLocation :: "string \<Rightarrow> string list \<Rightarrow> string list" where
  "handleToggleLocation locationId prev =
     (if locationId \<in> set prev then filter (\<lambda>i. i \<noteq> locationId) prev
      else prev @ [locationId])"

definition dlg_toast :: "toast \<Rightarrow> assignment_dialog \<Rightarrow> assignment_dialog" where
  "dlg_toast t d = d\<lparr>dlgToasts := dlgToasts d @ [t]\<rparr>"

definition handleSave ::
  "faults \<Rightarrow> database \<Rightarrow> assignment_dialog \<Rightarrow> database \<times> assignment_dialog" where
  "handleSave f db d =
     (case empId d of
        None \<Rightarrow>
          (db, (dlg_toast (toast_error ''Employee ID is missing'') d)\<lparr>dlgLoading := False\<rparr>)
      | Some e \<Rightarrow>
          if e = []
          then (db, (dlg_toast (toast_error ''Employee ID is missing'') d)\<lparr>dlgLoading := False\<rparr>)
          else
            (case delete_assignments_by_employee f e db of
               (Some err, db1) \<Rightarrow>
                 (db1, (dlg_toast (toast_error ''Failed to update location assignments'') d)
                         \<lparr>dlgLoading := False\<rparr>)
             | (None, db1) \<Rightarrow>
                 (case insert_selected f
                         (map (\<lambda>locationId. (e, locationId)) (selectedLocations d)) db1 of
                    (Some err, db2) \<Rightarrow>
                      (db2, (dlg_toast (toast_error ''Failed to update location assignments'') d)
                              \<lparr>dlgLoading := False\<rparr>)
                  | (None, db2) \<Rightarrow>
                      (db2, (dlg_toast
                               (toast_success ''Location assignments updated successfully'') d)
                              \<lparr>dlgLoading := False, dlgOpen := False\<rparr>))))"

section \<open>The location form's schema\<close>

text \<open>
  The input of \<open>formSchema\<close>, by its TypeScript type: \<open>name\<close> and \<open>address\<close> are
  strings, the three numeric fields are a number or a string, \<open>assignedEmployees\<close> is an
  optional array of strings.
\<close>

datatype num_input = NumIn jsnum | StrIn string

record form_input =
  in_name :: string
  in_address :: string
  in_latitude :: num_input
  in_longitude :: num_input
  in_radius :: num_input
  in_assignedEmployees :: "string list option"

record form_values =
  v_name :: string
  v_address :: string
  v_latitude :: jsnum
  v_longitude :: jsnum
  v_radius :: jsnum
  v_assignedEmployees :: "string list option"

definition is_digit :: "char \<Rightarrow> bool" where
  "is_digit c = (c \<in> set ''0123456789'')"

definition digit_val :: "char \<Rightarrow> nat" where
  "digit_val c = (of_char c :: nat) - 48"

definition digits_val :: "string \<Rightarrow> nat" where
  "digits_val s = foldl (\<lambda>n c. 10 * n + digit_val c) 0 s"

text \<open>The regular expression \<open>/^\d+(\.\d+)?$/\<close>, and \<open>/^-?\d+(\.\d+)?$/\<close>.\<close>

definition matches_unsigned :: "string \<Rightarrow> bool" where
  "matches_unsigned s =
     (let ip = takeWhile is_digit s; rest = dropWhile is_digit s
      in ip \<noteq> [] \<and>
         (case rest of
            [] \<Rightarrow> True
          | c # fp \<Rightarrow> c = CHR ''.'' \<and> fp \<noteq> [] \<and> list_all is_digit fp))"

definition matches_signed :: "string \<Rightarrow> bool" where
  "matches_signed s =
     (case s of
        [] \<Rightarrow> False
      | c # t \<Rightarrow> if c = CHR ''-'' then matches_unsigned t else matches_unsigned s)"

text \<open>\<open>Number(s)\<close> for a string that matched: its decimal value.\<close>

definition unsigned_value :: "string \<Rightarrow> real" where
  "unsigned_value s =
     (let ip = takeWhile is_digit s; fp = drop 1 (dropWhile is_digit s)
      in real (digits_val ip) + real (digits_val fp) / 10 ^ length fp)"

definition js_Number :: "string \<Rightarrow> jsnum" where
  "js_Number s =
     (case s of
        [] \<Rightarrow> Fin 0
      | c # t \<Rightarrow> if c = CHR ''-'' then Fin (- unsigned_value t) else Fin (unsigned_value s))"

text \<open>
  \<open>z.number().or(z.string().regex(re).transform(Number))\<close>: a number other than
  \<open>NaN\<close>, or a string that matches, turned into a number (zod 3: \<open>z.number()\<close>
  refuses \<open>NaN\<close> and admits the infinities).
\<close>

definition number_or_string :: "bool \<Rightarrow> num_input \<Rightarrow> jsnum option" where
  "number_or_string signed v =
     (case v of
        NumIn n \<Rightarrow> if n = NaN then None else Some n
      | StrIn s \<Rightarrow>
          if (if signed then matches_signed s else matches_unsigned s)
          then Some (js_Number s) else None)"

definition formSchema :: "form_input \<Rightarrow> form_values option" where
  "formSchema v =
     (case (number_or_string True (in_latitude v), number_or_string True (in_longitude v),
            number_or_string False (in_radius v)) of
        (Some lat, Some lon, Some r) \<Rightarrow>
          if length (in_name v) \<ge> 1 \<and> length (in_address v) \<ge> 1
             \<and> js_ge lat (Fin (- 90)) \<and> js_le lat (Fin 90)
             \<and> js_ge lon (Fin (- 180)) \<and> js_le lon (Fin 180)
             \<and> js_gt r (Fin 0)
          then Some \<lparr>v_name = in_name v, v_address = in_address v, v_latitude = lat,
                      v_longitude = lon, v_radius = r,
                      v_assignedEmployees = in_assignedEmployees v\<rparr>
          else None
      | _ \<Rightarrow> None)"

text \<open>
  The dialog's \<open>handleSubmit\<close> formats the validated values and hands them to the page;
  \<open>form.handleSubmit\<close> calls it only when the schema accepted the input.
\<close>

definition handleSubmit :: "geofence_location option \<Rightarrow> form_values \<Rightarrow> location_form" where
  "handleSubmit location data =
     \<lparr>form_name = v_name data,
      form_address =
        (if v_address data \<noteq> [] then v_address data
         else case location of Some g \<Rightarrow> loc_address g | None \<Rightarrow> []),
      form_latitude = v_latitude data,
      form_longitude = v_longitude data,
      form_radius = v_radius data,
      assignedEmployees = (case v_assignedEmployees data of Some xs \<Rightarrow> xs | None \<Rightarrow> [])\<rparr>"

text \<open>
  Selecting an employee in the dialog's list toggles its id in the form's selection; the
  selection reaches the page only when the form is submitted.
\<close>

definition toggleEmployee :: "string \<Rightarrow> string list \<Rightarrow> string list" where
  "toggleEmployee employeeId currentValues =
     (if employeeId \<in> set currentValues then filter (\<lambda>i. i \<noteq> employeeId) currentValues
      else currentValues @ [employeeId])"

definition submit_form ::
  "faults \<Rightarrow> int \<Rightarrow> string \<Rightarrow> form_input \<Rightarrow> database \<Rightarrow> locations_page
     \<Rightarrow> database \<times> locations_page" where
  "submit_form f now fresh input db pg =
     (case formSchema input of
        None \<Rightarrow> (db, pg)
      | Some data \<Rightarrow>
          handleSubmitLocation f now fresh
            (handleSubmit (map_option row (selectedLocation pg)) data) db pg)"

section \<open>The map view's search\<close>

text \<open>
  Strings are lists of 8-bit characters, so the model covers ASCII text:
  \<open>toLowerCase\<close> maps \<open>A\<close>..\<open>Z\<close> to \<open>a\<close>..\<open>z\<close>, and \<open>trim\<close> removes the ASCII
  white space (tab, line feed, vertical tab, form feed, carriage return, space).
\<close>

definition lower_char :: "char \<Rightarrow> char" where
  "lower_char c =
     (case map_of (zip ''ABCDEFGHIJKLMNOPQRSTUVWXYZ'' ''abcdefghijklmnopqrstuvwxyz'') c of
        Some l \<Rightarrow> l
      | None \<Rightarrow> c)"

definition toLowerCase :: "string \<Rightarrow> string" where
  "toLowerCase s = map lower_char s"

definition is_space :: "char \<Rightarrow> bool" where
  "is_space c = (c \<in> set [CHR 0x09, CHR 0x0A, CHR 0x0B, CHR 0x0C, CHR 0x0D, CHR 0x20])"

definition trim :: "string \<Rightarrow> string" where
  "trim s = rev (dropWhile is_space (rev (dropWhile is_space s)))"

fun starts_with :: "string \<Rightarrow> string \<Rightarrow> bool" where
  "starts_with s [] = True"
| "starts_with [] (q # qs) = False"
| "starts_with (c # cs) (q # qs) = (c = q \<and> starts_with cs qs)"

text \<open>\<open>s.includes(q)\<close>: \<open>q\<close> occurs in \<open>s\<close> as a substring.\<close>

fun includes_str :: "string \<Rightarrow> string \<Rightarrow> bool" where
  "includes_str [] q = (q = [])"
| "includes_str (c # cs) q = (starts_with (c # cs) q \<or> includes_str cs q)"

definition filteredLocations :: "string \<Rightarrow> location_item list \<Rightarrow> location_item list" where
  "filteredLocations query locs =
     (if trim query = [] then locs
      else
        (let q = trim (toLowerCase query) in
         filter
           (\<lambda>location.
              (let nameMatch =
                     (if loc_name (row location) \<noteq> []
                      then includes_str (toLowerCase (loc_name (row location))) q else False);
                   addressMatch =
                     (if loc_address (row location) \<noteq> []
                      then includes_str (toLowerCase (loc_address (row location))) q else False)
               in nameMatch \<or> addressMatch))
           locs))"

section \<open>Registration\<close>

record user_metadata =
  firstName :: string
  lastName :: string
  meta_alias :: "string option"
  placeOfBirth :: string
  dateOfBirth :: string
  religion :: string
  address :: string
  phoneNumber :: string
  relativePhoneNumber :: string

record js_file =
  file_name :: string
  file_type :: string
  file_content :: string

text \<open>A \<open>FileList | null | undefined\<close> is an optional list of files.\<close>

record file_uploads =
  selfie :: "js_file list option"
  ktp :: "js_file list option"
  kk :: "js_file list option"
  cv :: "js_file list option"

record profile =
  profile_id :: string
  first_name :: string
  last_name :: string
  profile_alias :: "string option"
  fuel_name :: "string option"
  place_of_birth :: string
  date_of_birth :: string
  profile_religion :: string
  profile_address :: string
  phone_number :: string
  relative_phone_number :: string
  selfie_url :: "string option"
  ktp_url :: "string option"
  kk_url :: "string option"
  cv_url :: "string option"
  profile_created_at :: int
  profile_updated_at :: int

datatype account_request =
    AuthSignUp string
  | StorageUpload string
  | UpsertProfile string

type_synonym account_faults = "account_request \<Rightarrow> string option"

text \<open>
  The \<open>profiles\<close> table, the \<open>user-documents\<close> bucket (object path to object), and
  the requests sent.
\<close>

record account_store =
  profiles :: "profile list"
  user_documents :: "(string \<times> js_file) list"
  account_requests :: "account_request list"

definition account_sent :: "account_request \<Rightarrow> account_store \<Rightarrow> account_store" where
  "account_sent r st = st\<lparr>account_requests := account_requests st @ [r]\<rparr>"

text \<open>
  What \<open>supabase.auth.signUp\<close> answered: \<open>{data: {user, session}, error}\<close>, or an
  exception. The identity service is outside the repository, so its answer is an input.
  \<open>user\<close> is the id of the user created, \<open>session_user\<close> the id of the user of the
  session the sign-up opened, if it opened one: the client's later requests carry that
  session, and \<open>auth.uid()\<close> is its user.
\<close>

record auth_data =
  user :: "string option"
  session_user :: "string option"

datatype auth_response = AuthReturned auth_data "string option" | AuthThrew string

record signup_result =
  result_data :: "auth_data option"
  result_error :: "string option"

text \<open>\<open>file.name.split(".").pop()\<close>: what follows the last dot, or the whole name.\<close>

definition fileExt :: "string \<Rightarrow> string" where
  "fileExt name = rev (takeWhile (\<lambda>c. c \<noteq> CHR ''.'') (rev name))"

text \<open>The client library's \<open>getPublicUrl\<close> builds the address from the project's URL.\<close>

definition getPublicUrl :: "string \<Rightarrow> string \<Rightarrow> string" where
  "getPublicUrl supabaseUrl filePath =
     supabaseUrl @ ''/storage/v1/object/public/user-documents/'' @ filePath"

definition uploadFile ::
  "account_faults \<Rightarrow> string \<Rightarrow> js_file \<Rightarrow> string \<Rightarrow> string \<Rightarrow> account_store
     \<Rightarrow> string option \<times> account_store" where
  "uploadFile f supabaseUrl fl userId fileType st =
     (let fileName = userId @ ''/'' @ fileType @ ''.'' @ fileExt (file_name fl);
          filePath = ''documents/'' @ fileName;
          st1 = account_sent (StorageUpload filePath) st in
      case f (StorageUpload filePath) of
        Some uploadError \<Rightarrow> (None, st1)
      | None \<Rightarrow>
          (let st2 = st1\<lparr>user_documents :=
                       AList.update filePath fl (user_documents st1)\<rparr>;
               publicUrl = getPublicUrl supabaseUrl filePath
           in (if publicUrl \<noteq> [] then Some publicUrl else None, st2)))"

text \<open>One of the four \<open>if (files.x && files.x.length > 0)\<close> blocks of \<open>signUp\<close>.\<close>

definition upload_if_provided ::
  "account_faults \<Rightarrow> string \<Rightarrow> js_file list option \<Rightarrow> string \<Rightarrow> string \<Rightarrow> account_store
     \<Rightarrow> string option \<times> account_store" where
  "upload_if_provided f supabaseUrl fileList userId fileType st =
     (case fileList of
        Some (fl # rest) \<Rightarrow> uploadFile f supabaseUrl fl userId fileType st
      | _ \<Rightarrow> (None, st))"

text \<open>
  Row-level security of \<open>profiles\<close>. The migration enables it and declares two policies:
  \<open>FOR SELECT USING (auth.uid() = id)\<close> and \<open>FOR UPDATE USING (auth.uid() = id)\<close>. A
  command is permitted on a row when a policy for that command holds for it; a command
  that has no policy is refused. The account requests of the client (the public key, or
  the session of a signed-in user) come under these policies.
\<close>

datatype sql_command = SelectCommand | InsertCommand | UpdateCommand | DeleteCommand

definition profiles_policies :: "(sql_command \<times> (string option \<Rightarrow> profile \<Rightarrow> bool)) list" where
  "profiles_policies =
     [(SelectCommand, \<lambda>uid p. uid = Some (profile_id p)),
      (UpdateCommand, \<lambda>uid p. uid = Some (profile_id p))]"

definition policy_permits :: "sql_command \<Rightarrow> string option \<Rightarrow> profile \<Rightarrow> bool" where
  "policy_permits c uid p = list_ex (\<lambda>pol. fst pol = c \<and> snd pol uid p) profiles_policies"

text \<open>
  \<open>upsert\<close> on the primary key (\<open>INSERT ... ON CONFLICT (id) DO UPDATE\<close>), sent with
  \<open>auth.uid() = uid\<close>. The row proposed must pass the INSERT policies before the
  conflict is looked for; on a conflict the SELECT and UPDATE policies must hold for the
  row in the table and for the new one, which then replaces it; without a conflict the
  row is added.
\<close>

definition upsert_profile ::
  "account_faults \<Rightarrow> string option \<Rightarrow> profile \<Rightarrow> account_store
     \<Rightarrow> string option \<times> account_store" where
  "upsert_profile f uid p st =
     (let st1 = account_sent (UpsertProfile (profile_id p)) st in
      case f (UpsertProfile (profile_id p)) of
        Some e \<Rightarrow> (Some e, st1)
      | None \<Rightarrow>
          if \<not> policy_permits InsertCommand uid p
          then (Some ''new row violates row-level security policy for table profiles'', st1)
          else if profile_id p \<in> set (map profile_id (profiles st1))
          then
            (if list_all (\<lambda>q. policy_permits SelectCommand uid q \<and> policy_permits UpdateCommand uid q)
                  (p # filter (\<lambda>q. profile_id q = profile_id p) (profiles st1))
             then (None, st1\<lparr>profiles :=
                     map (\<lambda>q. if profile_id q = profile_id p then p else q) (profiles st1)\<rparr>)
             else (Some ''new row violates row-level security policy for table profiles'', st1))
          else (None, st1\<lparr>profiles := profiles st1 @ [p]\<rparr>))"

text \<open>The \<open>if (files) { ... }\<close> block of \<open>signUp\<close>: the four uploads, one after the other.\<close>

definition upload_documents ::
  "account_faults \<Rightarrow> string \<Rightarrow> file_uploads option \<Rightarrow> string \<Rightarrow> account_store
     \<Rightarrow> (string option \<times> string option \<times> string option \<times> string option) \<times> account_store" where
  "upload_documents f supabaseUrl files userId st0 =
     (case files of
        None \<Rightarrow> ((None, None, None, None), st0)
      | Some fs \<Rightarrow>
          (let (selfieUrl, st1) = upload_if_provided f supabaseUrl (selfie fs) userId ''selfie'' st0;
               (ktpUrl, st2) = upload_if_provided f supabaseUrl (ktp fs) userId ''ktp'' st1;
               (kkUrl, st3) = upload_if_provided f supabaseUrl (kk fs) userId ''kk'' st2;
               (cvUrl, st4) = upload_if_provided f supabaseUrl (cv fs) userId ''cv'' st3
           in ((selfieUrl, ktpUrl, kkUrl, cvUrl), st4)))"

text \<open>The row \<open>signUp\<close> upserts into \<open>profiles\<close>.\<close>

definition profile_row ::
  "string \<Rightarrow> user_metadata \<Rightarrow> int
     \<Rightarrow> string option \<times> string option \<times> string option \<times> string option \<Rightarrow> profile" where
  "profile_row userId m now urls =
     (case urls of (selfieUrl, ktpUrl, kkUrl, cvUrl) \<Rightarrow>
        \<lparr>profile_id = userId,
         first_name = firstName m,
         last_name = lastName m,
         profile_alias = meta_alias m,
         fuel_name = meta_alias m,
         place_of_birth = placeOfBirth m,
         date_of_birth = dateOfBirth m,
         profile_religion = religion m,
         profile_address = address m,
         phone_number = phoneNumber m,
         relative_phone_number = relativePhoneNumber m,
         selfie_url = selfieUrl,
         ktp_url = ktpUrl,
         kk_url = kkUrl,
         cv_url = cvUrl,
         profile_created_at = now,
         profile_updated_at = now\<rparr>)"

text \<open>
  \<open>signUp\<close>. A failed profile write is logged only; an exception of the identity call is
  caught and returned as the error. The uploads go to the storage service, whose policies
  are not among the migrations of the repository: whether it accepts an upload is left
  to \<open>account_faults\<close>.
\<close>

definition signUp ::
  "account_faults \<Rightarrow> string \<Rightarrow> int \<Rightarrow> auth_response \<Rightarrow> string \<Rightarrow> string
     \<Rightarrow> user_metadata option \<Rightarrow> file_uploads option \<Rightarrow> account_store
     \<Rightarrow> signup_result \<times> account_store" where
  "signUp f supabaseUrl now auth email password metadata files st =
     (let st0 = account_sent (AuthSignUp email) st in
      case auth of
        AuthThrew e \<Rightarrow> (\<lparr>result_data = None, result_error = Some e\<rparr>, st0)
      | AuthReturned data error \<Rightarrow>
          (case (user data, metadata) of
             (Some userId, Some m) \<Rightarrow>
               (let (urls, st4) = upload_documents f supabaseUrl files userId st0;
                    (profileError, st5) =
                      upsert_profile f (session_user data) (profile_row userId m now urls) st4
                in (\<lparr>result_data = Some data, result_error = error\<rparr>, st5))
           | _ \<Rightarrow> (\<lparr>result_data = Some data, result_error = error\<rparr>, st0)))"

section \<open>Routing\<close>

datatype page_component =
    LoginPage | RegisterForm | Home | EmployeesPage | ShiftsPage | LeavesPage
  | ReportsPage | SettingsPage | FreelancePage | LocationsPage

datatype rendered =
    Page page_component
  | Navigate string
  | LoadingAuthentication
  | Nothing

record auth_context =
  auth_user :: "string option"
  auth_isLoading :: bool

definition ProtectedRoute :: "auth_context \<Rightarrow> rendered \<Rightarrow> rendered" where
  "ProtectedRoute ctx children =
     (if auth_isLoading ctx then LoadingAuthentication
      else if auth_user ctx = None then Navigate ''/login''
      else children)"

datatype route_element = Public page_component | Protected page_component | Redirect string | NoElement

text \<open>
  The route table of \<open>AppRoutes\<close>, in the order declared: the ten page routes, the
  \<open>tempobook/*\<close> route (no element) when \<open>VITE_TEMPO\<close> is \<open>"true"\<close>, and the
  catch-all.
\<close>

definition page_routes :: "(string \<times> route_element) list" where
  "page_routes =
     [(''login'', Public LoginPage),
      (''register'', Public RegisterForm),
      (''/'', Protected Home),
      (''employees'', Protected EmployeesPage),
      (''shifts'', Protected ShiftsPage),
      (''leaves'', Protected LeavesPage),
      (''reports'', Protected ReportsPage),
      (''settings'', Protected SettingsPage),
      (''freelance'', Protected FreelancePage),
      (''locations'', Protected LocationsPage)]"

definition routes :: "bool \<Rightarrow> (string \<times> route_element) list" where
  "routes tempo =
     page_routes
     @ (if tempo then [(''tempobook/*'', NoElement)] else [])
     @ [(''*'', Redirect ''/'')]"

text \<open>
  The router's matching of a pathname against a route path, as the routing library
  compiles it: a leading slash, the path's segment compared without regard to case,
  any number of trailing slashes; \<open>*\<close> matches every pathname, and \<open>seg/*\<close> matches
  the segment alone or followed by a slash and anything.
\<close>

definition path_segment :: "string \<Rightarrow> string" where
  "path_segment pat = filter (\<lambda>c. c \<noteq> CHR ''/'' \<and> c \<noteq> CHR ''*'') pat"

definition matchPath :: "string \<Rightarrow> string \<Rightarrow> bool" where
  "matchPath pat pathname =
     (if pat = ''*'' then True
      else
        (let seg = CHR ''/'' # toLowerCase (path_segment pat);
             p = toLowerCase pathname;
             rest = drop (length seg) p
         in take (length seg) p = seg \<and>
            (if pat \<noteq> [] \<and> last pat = CHR ''*''
             then rest = [] \<or> hd rest = CHR ''/''
             else list_all (\<lambda>c. c = CHR ''/'') rest)))"

definition element_of :: "auth_context \<Rightarrow> route_element \<Rightarrow> rendered" where
  "element_of ctx e =
     (case e of
        Public c \<Rightarrow> Page c
      | Protected c \<Rightarrow> ProtectedRoute ctx (Page c)
      | Redirect to \<Rightarrow> Navigate to
      | NoElement \<Rightarrow> Nothing)"

definition AppRoutes :: "bool \<Rightarrow> auth_context \<Rightarrow> string \<Rightarrow> rendered" where
  "AppRoutes tempo ctx pathname =
     (case find (\<lambda>r. matchPath (fst r) pathname) (routes tempo) of
        Some r \<Rightarrow> element_of ctx (snd r)
      | None \<Rightarrow> Nothing)"

section \<open>Vocabulary of the statements\<close>

text \<open>The table's constraints admit a batch of assignment rows.\<close>

definition insertable :: "database \<Rightarrow> (string \<times> string) list \<Rightarrow> bool" where
  "insertable db rows =
     (list_all (\<lambda>p. fst p \<in> set (map emp_id (employees db))) rows
      \<and> list_all (\<lambda>p. snd p \<in> set (map loc_id (geofence_locations db))) rows
      \<and> distinct (map pair_of (employee_location_assignments db) @ rows))"

text \<open>
  The assignment rows after a location's selection was saved: the rows of the other
  locations, then the batch when the constraints admit it.
\<close>

definition replaced :: "database \<Rightarrow> string \<Rightarrow> string list \<Rightarrow> assignment list" where
  "replaced db l sel =
     (let keep = filter (\<lambda>a. location_id a \<noteq> l) (employee_location_assignments db);
          rows = map (\<lambda>e. (e, l)) sel
      in if sel = [] \<or> insertable (db\<lparr>employee_location_assignments := keep\<rparr>) rows
         then keep @ map row_of rows else keep)"

text \<open>
  A selection the constraints admit for a location: no employee twice, every employee
  in the \<open>employees\<close> table, and the location in \<open>geofence_locations\<close>.
\<close>

definition valid_selection :: "database \<Rightarrow> string \<Rightarrow> string list \<Rightarrow> bool" where
  "valid_selection db l sel =
     (distinct sel \<and> set sel \<subseteq> set (map emp_id (employees db)) \<and>
      (sel = [] \<or> l \<in> set (map loc_id (geofence_locations db))))"

text \<open>The backend accepts the three requests of a location's save.\<close>

definition location_requests_pass :: "faults \<Rightarrow> string \<Rightarrow> string list \<Rightarrow> bool" where
  "location_requests_pass f l sel =
     (f (UpdateLocation l) = None \<and> f (DeleteAssignmentsByLocation l) = None \<and>
      f (InsertAssignments (map (\<lambda>e. (e, l)) sel)) = None)"

text \<open>The backend accepts the two requests of the employee-side save.\<close>

definition employee_requests_pass :: "faults \<Rightarrow> string \<Rightarrow> string list \<Rightarrow> bool" where
  "employee_requests_pass f e sel =
     (f (DeleteAssignmentsByEmployee e) = None \<and>
      f (InsertAssignments (map (\<lambda>l. (e, l)) sel)) = None)"

text \<open>
  A selection of locations the constraints admit for an employee: no location twice,
  every location in \<open>geofence_locations\<close>, and the employee in \<open>employees\<close>.
\<close>

definition valid_locations :: "database \<Rightarrow> string \<Rightarrow> string list \<Rightarrow> bool" where
  "valid_locations db e sel =
     (distinct sel \<and> set sel \<subseteq> set (map loc_id (geofence_locations db)) \<and>
      (sel = [] \<or> e \<in> set (map emp_id (employees db))))"

text \<open>\<open>q\<close> occurs in \<open>s\<close> as a substring when case is ignored.\<close>

definition contains_ci :: "string \<Rightarrow> string \<Rightarrow> bool" where
  "contains_ci s q = (\<exists>ps ss. toLowerCase s = ps @ toLowerCase q @ ss)"

text \<open>The file of a file input that has content, if any; and the object path of a document.\<close>

definition provided :: "js_file list option \<Rightarrow> js_file list" where
  "provided fileList = (case fileList of Some (fl # rest) \<Rightarrow> [fl] | _ \<Rightarrow> [])"

definition document_path :: "string \<Rightarrow> string \<Rightarrow> js_file \<Rightarrow> string" where
  "document_path userId fileType fl =
     ''documents/'' @ userId @ ''/'' @ fileType @ ''.'' @ fileExt (file_name fl)"

text \<open>The upload requests of a sign-up: one per file input with content, in order.\<close>

definition upload_requests :: "string \<Rightarrow> file_uploads option \<Rightarrow> account_request list" where
  "upload_requests userId files =
     (case files of
        None \<Rightarrow> []
      | Some fs \<Rightarrow>
          map (\<lambda>fl. StorageUpload (document_path userId ''selfie'' fl)) (provided (selfie fs)) @
          map (\<lambda>fl. StorageUpload (document_path userId ''ktp'' fl)) (provided (ktp fs)) @
          map (\<lambda>fl. StorageUpload (document_path userId ''kk'' fl)) (provided (kk fs)) @
          map (\<lambda>fl. StorageUpload (document_path userId ''cv'' fl)) (provided (cv fs)))"

section \<open>Example data\<close>

text \<open>A small database and page: one location with two assigned employees.\<close>

definition hq :: geofence_location where
  "hq = \<lparr>loc_id = ''L1'', loc_name = ''HQ'', loc_address = ''1 Main St'',
          latitude = Fin (- 6.2), longitude = Fin 106.8, radius = Fin 100,
          created_at = 10, updated_at = 10\<rparr>"

definition db0 :: database where
  "db0 = \<lparr>employees = [\<lparr>emp_id = ''E1'', emp_name = ''Ani'', emp_code = ''EMP-1''\<rparr>,
                        \<lparr>emp_id = ''E2'', emp_name = ''Budi'', emp_code = ''EMP-2''\<rparr>],
           geofence_locations = [hq],
           employee_location_assignments =
             [\<lparr>employee_id = ''E1'', location_id = ''L1''\<rparr>,
              \<lparr>employee_id = ''E2'', location_id = ''L1''\<rparr>],
           requests = []\<rparr>"

definition hq_item :: location_item where
  "hq_item = \<lparr>row = hq, assigned_employees = Some [''E1'', ''E2''], employee_details = None\<rparr>"

definition pg0 :: locations_page where
  "pg0 = \<lparr>locations = [hq_item], isLoading = False, selectedLocation = Some hq_item,
           isDialogOpen = True, activeTab = ''table'', searchQuery = [], toasts = []\<rparr>"

definition form0 :: location_form where
  "form0 = \<lparr>form_name = ''HQ'', form_address = ''1 Main St'', form_latitude = Fin (- 6.2),
             form_longitude = Fin 106.8, form_radius = Fin 100, assignedEmployees = [''E1'']\<rparr>"

definition no_faults :: faults where
  "no_faults = (\<lambda>r. None)"

text \<open>A database of three locations, and an open employee-side dialog.\<close>

definition main_office :: geofence_location where
  "main_office = \<lparr>loc_id = ''L2'', loc_name = ''Main Office'', loc_address = ''Jl. Sudirman 1'',
          latitude = Fin (- 6.21), longitude = Fin 106.82, radius = Fin 150,
          created_at = 20, updated_at = 20\<rparr>"

definition warehouse :: geofence_location where
  "warehouse = \<lparr>loc_id = ''L3'', loc_name = ''Warehouse'', loc_address = ''12 Office Park'',
          latitude = Fin (- 6.3), longitude = Fin 106.9, radius = Fin 50,
          created_at = 30, updated_at = 30\<rparr>"

definition db3 :: database where
  "db3 = \<lparr>employees = [\<lparr>emp_id = ''E1'', emp_name = ''Ani'', emp_code = ''EMP-1''\<rparr>,
                        \<lparr>emp_id = ''E2'', emp_name = ''Budi'', emp_code = ''EMP-2''\<rparr>],
           geofence_locations = [hq, main_office, warehouse],
           employee_location_assignments =
             [\<lparr>employee_id = ''E1'', location_id = ''L1''\<rparr>,
              \<lparr>employee_id = ''E2'', location_id = ''L1''\<rparr>,
              \<lparr>employee_id = ''E1'', location_id = ''L2''\<rparr>],
           requests = []\<rparr>"

definition dlg0 :: assignment_dialog where
  "dlg0 = \<lparr>empId = Some ''E1'', selectedLocations = [''L2'', ''L3''], dlgLoading = False,
            dlgOpen = True, dlgToasts = []\<rparr>"

text \<open>A backend that refuses the assignment query of location \<open>L2\<close> only, and one that
  refuses the location query.\<close>

definition faults_L2 :: faults where
  "faults_L2 = (\<lambda>r. if r = SelectAssignments ''L2'' then Some ''timeout'' else None)"

definition faults_list :: faults where
  "faults_list = (\<lambda>r. if r = SelectLocations then Some ''timeout'' else None)"

text \<open>
  A form input the schema accepts, with numbers in the numeric fields; the same input
  with the longitude typed as text; and the same input with radius 0.
\<close>

definition good_input :: form_input where
  "good_input = \<lparr>in_name = ''HQ'', in_address = ''1 Main St'', in_latitude = NumIn (Fin (- 6.2)),
                  in_longitude = NumIn (Fin 106.8), in_radius = NumIn (Fin 100),
                  in_assignedEmployees = Some [''E1'', ''E2'']\<rparr>"

definition text_input :: form_input where
  "text_input = good_input\<lparr>in_longitude := StrIn ''106.8''\<rparr>"

definition zero_radius_input :: form_input where
  "zero_radius_input = good_input\<lparr>in_radius := NumIn (Fin 0)\<rparr>"

text \<open>The three locations as the page lists them.\<close>

definition main_office_item :: location_item where
  "main_office_item = \<lparr>row = main_office, assigned_employees = Some [''E1''], employee_details = None\<rparr>"

definition warehouse_item :: location_item where
  "warehouse_item = \<lparr>row = warehouse, assigned_employees = Some [], employee_details = None\<rparr>"

text \<open>A registration with a selfie only, and two backends.\<close>

definition meta0 :: user_metadata where
  "meta0 = \<lparr>firstName = ''Ani'', lastName = ''Wijaya'', meta_alias = Some ''ani'',
             placeOfBirth = ''Jakarta'', dateOfBirth = ''1990-01-01'', religion = ''-'',
             address = ''1 Main St'', phoneNumber = ''0800'', relativePhoneNumber = ''0801''\<rparr>"

definition selfie0 :: js_file where
  "selfie0 = \<lparr>file_name = ''me.jpg'', file_type = ''image/jpeg'', file_content = ''bytes''\<rparr>"

definition files0 :: file_uploads where
  "files0 = \<lparr>selfie = Some [selfie0], ktp = None, kk = Some [], cv = None\<rparr>"

definition store0 :: account_store where
  "store0 = \<lparr>profiles = [], user_documents = [], account_requests = []\<rparr>"

definition registered :: auth_response where
  "registered = AuthReturned \<lparr>user = Some ''U1'', session_user = Some ''U1''\<rparr> None"

definition no_account_faults :: account_faults where
  "no_account_faults = (\<lambda>r. None)"

definition profile_write_fails :: account_faults where
  "profile_write_fails = (\<lambda>r. if r = UpsertProfile ''U1'' then Some ''refused'' else None)"

text \<open>An identity answer without a user.\<close>

definition unregistered :: auth_response where
  "unregistered =
     AuthReturned \<lparr>user = None, session_user = None\<rparr> (Some ''User already registered'')"

text \<open>An authentication state that is still loading.\<close>

definition loading_ctx :: auth_context where
  "loading_ctx = \<lparr>auth_user = None, auth_isLoading = True\<rparr>"

section \<open>Verification\<close>

subsection \<open>Selections built by toggling\<close>

lemma toggleEmployee_distinct: "distinct sel \<Longrightarrow> distinct (toggleEmployee e sel)"
  by (simp add: toggleEmployee_def)

lemma handleToggleLocation_distinct: "distinct sel \<Longrightarrow> distinct (handleToggleLocation l sel)"
  by (simp add: handleToggleLocation_def)

subsection \<open>What the backend operations leave unchanged\<close>

lemma sent_tables [simp]:
  "employees (sent r db) = employees db"
  "geofence_locations (sent r db) = geofence_locations db"
  "employee_location_assignments (sent r db) = employee_location_assignments db"
  by (simp_all add: sent_def)

lemma select_assignments_tables:
  "employees (snd (select_assignments f l db)) = employees db"
  "geofence_locations (snd (select_assignments f l db)) = geofence_locations db"
  "employee_location_assignments (snd (select_assignments f l db)) = employee_location_assignments db"
  by (simp_all add: select_assignments_def Let_def split: option.splits)

lemma with_employees_tables:
  "employees (snd (with_employees f g db)) = employees db"
  "geofence_locations (snd (with_employees f g db)) = geofence_locations db"
  "employee_location_assignments (snd (with_employees f g db)) = employee_location_assignments db"
  using select_assignments_tables [of f "loc_id g" db]
  by (auto simp: with_employees_def split: prod.splits sum.splits)

lemma locationsWithEmployees_tables:
  "employees (snd (locationsWithEmployees f gs db)) = employees db \<and>
   geofence_locations (snd (locationsWithEmployees f gs db)) = geofence_locations db \<and>
   employee_location_assignments (snd (locationsWithEmployees f gs db)) = employee_location_assignments db"
proof (induction gs arbitrary: db)
  case Nil
  show ?case by simp
next
  case (Cons g gs)
  show ?case
    using Cons.IH [of "snd (with_employees f g db)"] with_employees_tables [of f g db]
    by (simp add: split_beta Let_def)
qed

lemma fetchLocations_tables:
  "employees (fst (fetchLocations f db pg)) = employees db"
  "geofence_locations (fst (fetchLocations f db pg)) = geofence_locations db"
  "employee_location_assignments (fst (fetchLocations f db pg)) = employee_location_assignments db"
  using locationsWithEmployees_tables [of f _ "sent SelectLocations db"]
  by (auto simp: fetchLocations_def select_locations_def Let_def split_beta split: option.splits)

lemma fetchLocations_selected:
  "selectedLocation (snd (fetchLocations f db pg)) = selectedLocation pg"
  by (auto simp: fetchLocations_def select_locations_def Let_def split_beta add_toast_def split: option.splits)

lemma update_location_frame:
  assumes "update_location f l d now db = (r, db1)"
  shows "employees db1 = employees db"
    and "map loc_id (geofence_locations db1) = map loc_id (geofence_locations db)"
    and "employee_location_assignments db1 = employee_location_assignments db"
    and "r = f (UpdateLocation l)"
  using assms by (auto simp: update_location_def Let_def sent_def split: option.splits)

lemma delete_by_location_frame:
  assumes "delete_assignments_by_location f l db = (r, db1)"
  shows "employees db1 = employees db"
    and "geofence_locations db1 = geofence_locations db"
    and "r = f (DeleteAssignmentsByLocation l)"
    and "r = None \<Longrightarrow> employee_location_assignments db1 =
             filter (\<lambda>a. location_id a \<noteq> l) (employee_location_assignments db)"
  using assms by (auto simp: delete_assignments_by_location_def Let_def sent_def split: option.splits)

lemma insertable_Nil: "insertable db [] = distinct (map pair_of (employee_location_assignments db))"
  by (simp add: insertable_def)

lemma insert_assignments_frame:
  assumes "insert_assignments f rows db = (r, db1)"
  shows "employees db1 = employees db"
    and "geofence_locations db1 = geofence_locations db"
    and "f (InsertAssignments rows) = None \<Longrightarrow> (r = None) = insertable db rows"
    and "employee_location_assignments db1 =
           (if r = None then employee_location_assignments db @ map row_of rows
            else employee_location_assignments db)"
  using assms by (auto simp: insert_assignments_def insertable_def Let_def sent_def split: option.splits if_splits)

lemma insert_selected_frame:
  assumes "insert_selected f rows db = (r, db1)"
  shows "employees db1 = employees db"
    and "geofence_locations db1 = geofence_locations db"
    and "f (InsertAssignments rows) = None \<Longrightarrow> (r = None) = (rows = [] \<or> insertable db rows)"
    and "employee_location_assignments db1 =
           (if r = None then employee_location_assignments db @ map row_of rows
            else employee_location_assignments db)"
  using assms insert_assignments_frame [of f rows db r db1]
  by (auto simp: insert_selected_def split: if_splits)

lemma insertable_cong:
  assumes "employees db1 = employees db"
    and "map loc_id (geofence_locations db1) = map loc_id (geofence_locations db)"
    and "employee_location_assignments db1 = employee_location_assignments db"
  shows "insertable db1 rows = insertable db rows"
  using assms unfolding insertable_def by simp

subsection \<open>Saving a location\<close>

lemma save_failed_selected: "selectedLocation (save_failed e pg) = selectedLocation pg"
  by (simp add: save_failed_def add_toast_def)

lemma submit_update_steps:
  fixes d :: location_form
  assumes sel: "selectedLocation pg = Some s"
  defines "l \<equiv> loc_id (row s)"
  defines "rows \<equiv> map (\<lambda>e. (e, l)) (assignedEmployees d)"
  shows "employees (fst (handleSubmitLocation f now fresh d db pg)) = employees db \<and>
           map loc_id (geofence_locations (fst (handleSubmitLocation f now fresh d db pg)))
              = map loc_id (geofence_locations db) \<and>
           selectedLocation (snd (handleSubmitLocation f now fresh d db pg)) = Some s"
    and "f (UpdateLocation l) = None \<Longrightarrow> f (DeleteAssignmentsByLocation l) = None \<Longrightarrow>
         f (InsertAssignments rows) = None \<Longrightarrow>
           employee_location_assignments (fst (handleSubmitLocation f now fresh d db pg))
             = replaced db l (assignedEmployees d)"
proof -
  define d' where "d' = d\<lparr>form_address :=
                     (if form_address d \<noteq> [] then form_address d else loc_address (row s))\<rparr>"
  obtain r1 db1 where u: "update_location f l d' now db = (r1, db1)" by (cases "update_location f l d' now db")
  obtain r2 db2 where dl: "delete_assignments_by_location f l db1 = (r2, db2)"
    by (cases "delete_assignments_by_location f l db1")
  obtain r3 db3 where i: "insert_selected f rows db2 = (r3, db3)"
    by (cases "insert_selected f rows db2")
  note U = update_location_frame [OF u]
  note D = delete_by_location_frame [OF dl]
  note I = insert_selected_frame [OF i]
  have e1: "employees db1 = employees db" "map loc_id (geofence_locations db1) = map loc_id (geofence_locations db)"
    using U by simp_all
  have e2: "employees db2 = employees db" "map loc_id (geofence_locations db2) = map loc_id (geofence_locations db)"
    using D e1 by simp_all
  have e3: "employees db3 = employees db" "map loc_id (geofence_locations db3) = map loc_id (geofence_locations db)"
    using I e2 by simp_all
  have unf: "handleSubmitLocation f now fresh d db pg =
      (case r1 of Some e \<Rightarrow> (db1, save_failed e pg)
       | None \<Rightarrow> (case r2 of Some e \<Rightarrow> (db2, save_failed e pg)
          | None \<Rightarrow> (case r3 of Some e \<Rightarrow> (db3, save_failed e pg)
             | None \<Rightarrow> fetchLocations f db3
                           ((add_toast (toast_success ''Location updated successfully'') pg)
                              \<lparr>isDialogOpen := False\<rparr>))))"
    using sel u dl i
    by (simp add: handleSubmitLocation_def Let_def l_def [symmetric] d'_def [symmetric]
          rows_def [symmetric] split: option.splits)
  show "employees (fst (handleSubmitLocation f now fresh d db pg)) = employees db \<and>
           map loc_id (geofence_locations (fst (handleSubmitLocation f now fresh d db pg)))
              = map loc_id (geofence_locations db) \<and>
           selectedLocation (snd (handleSubmitLocation f now fresh d db pg)) = Some s"
  proof (cases r1)
    case Some
    then show ?thesis unfolding unf using e1 sel by (simp add: save_failed_selected)
  next
    case n1: None
    show ?thesis
    proof (cases r2)
      case Some
      then show ?thesis unfolding unf using n1 e2 sel by (simp add: save_failed_selected)
    next
      case n2: None
      show ?thesis
      proof (cases r3)
        case Some
        then show ?thesis unfolding unf using n1 n2 e3 sel by (simp add: save_failed_selected)
      next
        case None
        then show ?thesis unfolding unf using n1 n2 e3 sel
          by (simp add: fetchLocations_tables fetchLocations_selected add_toast_def)
      qed
    qed
  qed
  show "employee_location_assignments (fst (handleSubmitLocation f now fresh d db pg))
                = replaced db l (assignedEmployees d)"
    if nf: "f (UpdateLocation l) = None" "f (DeleteAssignmentsByLocation l) = None"
           "f (InsertAssignments rows) = None"
  proof -
    have r1: "r1 = None" and r2: "r2 = None" using U(4) D(3) nf by simp_all
    have k: "employee_location_assignments db2 =
               filter (\<lambda>a. location_id a \<noteq> l) (employee_location_assignments db)"
      using D(4) r2 U(3) by simp
    have ins_eq: "insertable db2 rows =
        insertable (db\<lparr>employee_location_assignments :=
           filter (\<lambda>a. location_id a \<noteq> l) (employee_location_assignments db)\<rparr>) rows"
      by (rule insertable_cong) (simp_all add: e2 k)
    have r3: "(r3 = None) = (rows = [] \<or> insertable db2 rows)" using I(3) nf by simp
    have rows_nil: "(rows = []) = (assignedEmployees d = [])" by (simp add: rows_def)
    have rep: "replaced db l (assignedEmployees d) =
        (if rows = [] \<or> insertable db2 rows
         then employee_location_assignments db2 @ map row_of rows
         else employee_location_assignments db2)"
      unfolding ins_eq k by (simp add: replaced_def Let_def rows_def)
    have out: "fst (handleSubmitLocation f now fresh d db pg) =
        (case r3 of Some e \<Rightarrow> db3 | None \<Rightarrow> fst (fetchLocations f db3
                           ((add_toast (toast_success ''Location updated successfully'') pg)
                              \<lparr>isDialogOpen := False\<rparr>)))"
      unfolding unf r1 r2 by (simp split: option.splits)
    have "employee_location_assignments (fst (handleSubmitLocation f now fresh d db pg))
            = employee_location_assignments db3"
      unfolding out by (cases r3) (simp_all add: fetchLocations_tables)
    also have "\<dots> = replaced db l (assignedEmployees d)"
      unfolding rep I(4) r3 [symmetric] ..
    finally show ?thesis .
  qed
qed

lemma replaced_explicit:
  assumes "distinct (map pair_of (employee_location_assignments db))"
  shows "replaced db l sel =
           filter (\<lambda>a. location_id a \<noteq> l) (employee_location_assignments db) @
           (if distinct sel \<and> set sel \<subseteq> set (map emp_id (employees db)) \<and>
               (sel = [] \<or> l \<in> set (map loc_id (geofence_locations db)))
            then map (\<lambda>e. \<lparr>employee_id = e, location_id = l\<rparr>) sel else [])"
proof -
  have a: "distinct (map pair_of (filter (\<lambda>a. location_id a \<noteq> l) (employee_location_assignments db)))"
    using assms by (simp add: distinct_map_filter)
  have b: "distinct (map (\<lambda>e. (e, l)) sel) = distinct sel"
    by (simp add: distinct_map inj_on_def)
  have c: "set (map pair_of (filter (\<lambda>a. location_id a \<noteq> l) (employee_location_assignments db)))
            \<inter> set (map (\<lambda>e. (e, l)) sel) = {}"
    by (auto simp: pair_of_def)
  have d: "list_all (\<lambda>p. fst p \<in> set (map emp_id (employees db))) (map (\<lambda>e. (e, l)) sel)
             = (set sel \<subseteq> set (map emp_id (employees db)))"
    by (auto simp: list_all_iff)
  have e: "list_all (\<lambda>p. snd p \<in> set (map loc_id (geofence_locations db))) (map (\<lambda>e. (e, l)) sel)
             = (sel = [] \<or> l \<in> set (map loc_id (geofence_locations db)))"
    by (cases sel) (auto simp: list_all_iff)
  have f: "map row_of (map (\<lambda>e. (e, l)) sel) = map (\<lambda>e. \<lparr>employee_id = e, location_id = l\<rparr>) sel"
    by (simp add: row_of_def)
  show ?thesis
    unfolding replaced_def insertable_def Let_def
    using a b c d e f by (auto simp del: set_map map_map)
qed

lemma valid_selection_cong:
  assumes "employees db1 = employees db"
    and "map loc_id (geofence_locations db1) = map loc_id (geofence_locations db)"
  shows "valid_selection db1 l sel = valid_selection db l sel"
proof -
  have "set (map loc_id (geofence_locations db1)) = set (map loc_id (geofence_locations db))"
    using assms(2) by simp
  then show ?thesis unfolding valid_selection_def using assms(1) by simp
qed

lemma replaced_distinct:
  assumes "distinct (map pair_of (employee_location_assignments db))"
  shows "distinct (map pair_of (replaced db l sel))"
proof -
  have a: "distinct (map pair_of (filter (\<lambda>a. location_id a \<noteq> l) (employee_location_assignments db)))"
    using assms by (simp add: distinct_map_filter)
  have b: "distinct sel \<Longrightarrow> distinct (map pair_of (map (\<lambda>e. \<lparr>employee_id = e, location_id = l\<rparr>) sel))"
    by (simp add: distinct_map inj_on_def pair_of_def comp_def)
  have c: "set (map pair_of (filter (\<lambda>a. location_id a \<noteq> l) (employee_location_assignments db)))
            \<inter> set (map pair_of (map (\<lambda>e. \<lparr>employee_id = e, location_id = l\<rparr>) sel)) = {}"
    by (auto simp: pair_of_def)
  show ?thesis
    unfolding replaced_explicit [OF assms]
    using a b c by (simp del: set_map map_map)
qed

lemma replaced_keep:
  assumes "distinct (map pair_of (employee_location_assignments db))"
  shows "filter (\<lambda>a. location_id a \<noteq> l) (replaced db l sel)
           = filter (\<lambda>a. location_id a \<noteq> l) (employee_location_assignments db)"
  unfolding replaced_explicit [OF assms] by (auto simp: filter_empty_conv)

text \<open>
  C1. Saving a location's selection replaces the location's assignment rows: with the
  three requests of the save accepted and the unique-pair constraint holding in the
  table, the rows of every other location stay, the location's rows become one row per
  selected employee (none when the table's constraints refuse the batch: a repeated
  employee, an unknown employee or location), saving the same selection again leaves the
  same rows, and no pair occurs twice.
\<close>

theorem update_replaces_assignments:
  fixes d :: location_form
  assumes sel: "selectedLocation pg = Some s"
    and uniq: "distinct (map pair_of (employee_location_assignments db))"
    and p1: "location_requests_pass f (loc_id (row s)) (assignedEmployees d)"
    and p2: "location_requests_pass f' (loc_id (row s)) (assignedEmployees d)"
  shows "employee_location_assignments (fst (handleSubmitLocation f now fresh d db pg)) =
           filter (\<lambda>a. location_id a \<noteq> loc_id (row s)) (employee_location_assignments db) @
           (if valid_selection db (loc_id (row s)) (assignedEmployees d)
            then map (\<lambda>e. \<lparr>employee_id = e, location_id = loc_id (row s)\<rparr>) (assignedEmployees d)
            else [])
       \<and> employee_location_assignments
           (fst (handleSubmitLocation f' now' fresh' d
                  (fst (handleSubmitLocation f now fresh d db pg))
                  (snd (handleSubmitLocation f now fresh d db pg))))
           = employee_location_assignments (fst (handleSubmitLocation f now fresh d db pg))
       \<and> distinct (map pair_of
            (employee_location_assignments (fst (handleSubmitLocation f now fresh d db pg))))"
proof -
  define l where "l = loc_id (row s)"
  define db1 where "db1 = fst (handleSubmitLocation f now fresh d db pg)"
  define pg1 where "pg1 = snd (handleSubmitLocation f now fresh d db pg)"
  have fr: "employees db1 = employees db"
      "map loc_id (geofence_locations db1) = map loc_id (geofence_locations db)"
      "selectedLocation pg1 = Some s"
    using submit_update_steps(1) [OF sel, of f now fresh d db] unfolding db1_def pg1_def by simp_all
  have r1: "employee_location_assignments db1 = replaced db l (assignedEmployees d)"
    using submit_update_steps(2) [OF sel, of f d now fresh db] p1
    unfolding db1_def l_def location_requests_pass_def by simp
  have u1: "distinct (map pair_of (employee_location_assignments db1))"
    unfolding r1 by (rule replaced_distinct [OF uniq])
  have r2: "employee_location_assignments (fst (handleSubmitLocation f' now' fresh' d db1 pg1))
              = replaced db1 l (assignedEmployees d)"
    using submit_update_steps(2) [OF fr(3), of f' d now' fresh' db1] p2
    unfolding l_def location_requests_pass_def by simp
  have v: "valid_selection db1 l (assignedEmployees d) = valid_selection db l (assignedEmployees d)"
    by (rule valid_selection_cong [OF fr(1) fr(2)])
  have k: "filter (\<lambda>a. location_id a \<noteq> l) (employee_location_assignments db1)
             = filter (\<lambda>a. location_id a \<noteq> l) (employee_location_assignments db)"
    unfolding r1 by (rule replaced_keep [OF uniq])
  have e1: "replaced db l (assignedEmployees d) =
           filter (\<lambda>a. location_id a \<noteq> l) (employee_location_assignments db) @
           (if valid_selection db l (assignedEmployees d)
            then map (\<lambda>e. \<lparr>employee_id = e, location_id = l\<rparr>) (assignedEmployees d)
            else [])"
    unfolding valid_selection_def by (rule replaced_explicit [OF uniq])
  have e2: "replaced db1 l (assignedEmployees d) =
           filter (\<lambda>a. location_id a \<noteq> l) (employee_location_assignments db1) @
           (if valid_selection db1 l (assignedEmployees d)
            then map (\<lambda>e. \<lparr>employee_id = e, location_id = l\<rparr>) (assignedEmployees d)
            else [])"
    unfolding valid_selection_def by (rule replaced_explicit [OF u1])
  have idem: "replaced db1 l (assignedEmployees d) = replaced db l (assignedEmployees d)"
    unfolding e2 e1 v k ..
  show ?thesis
    unfolding db1_def [symmetric] pg1_def [symmetric] l_def [symmetric]
    using r1 r2 u1 e1 idem by simp
qed

theorem update_replaces_assignments_witness:
  "selectedLocation pg0 = Some hq_item
   \<and> distinct (map pair_of (employee_location_assignments db0))
   \<and> location_requests_pass no_faults (loc_id (row hq_item)) (assignedEmployees form0)
   \<and> employee_location_assignments (fst (handleSubmitLocation no_faults 20 ''L9'' form0 db0 pg0))
       = [\<lparr>employee_id = ''E1'', location_id = ''L1''\<rparr>]
   \<and> employee_location_assignments
        (fst (handleSubmitLocation no_faults 30 ''L9'' form0
               (fst (handleSubmitLocation no_faults 20 ''L9'' form0 db0 pg0))
               (snd (handleSubmitLocation no_faults 20 ''L9'' form0 db0 pg0))))
       = [\<lparr>employee_id = ''E1'', location_id = ''L1''\<rparr>]"
proof -
  have h1: "selectedLocation pg0 = Some hq_item" by (simp add: pg0_def)
  have h2: "distinct (map pair_of (employee_location_assignments db0))"
    by (simp add: db0_def pair_of_def)
  have h3: "location_requests_pass no_faults (loc_id (row hq_item)) (assignedEmployees form0)"
    by (simp add: location_requests_pass_def no_faults_def)
  have v: "valid_selection db0 (loc_id (row hq_item)) (assignedEmployees form0)"
    by (simp add: valid_selection_def db0_def hq_item_def hq_def form0_def)
  have k: "filter (\<lambda>a. location_id a \<noteq> loc_id (row hq_item)) (employee_location_assignments db0) = []"
    by (simp add: db0_def hq_item_def hq_def)
  have n: "map (\<lambda>e. \<lparr>employee_id = e, location_id = loc_id (row hq_item)\<rparr>) (assignedEmployees form0)
            = [\<lparr>employee_id = ''E1'', location_id = ''L1''\<rparr>]"
    by (simp add: hq_item_def hq_def form0_def)
  show ?thesis
    using update_replaces_assignments [OF h1 h2 h3 h3, of 20 "''L9''" 30 "''L9''"] h1 h2 h3 v k n
    by simp
qed

subsection \<open>Saving an employee's locations\<close>

lemma delete_by_employee_frame:
  assumes "delete_assignments_by_employee f e db = (r, db1)"
  shows "employees db1 = employees db"
    and "geofence_locations db1 = geofence_locations db"
    and "r = f (DeleteAssignmentsByEmployee e)"
    and "employee_location_assignments db1 =
           (if r = None then filter (\<lambda>a. employee_id a \<noteq> e) (employee_location_assignments db)
            else employee_location_assignments db)"
  using assms by (auto simp: delete_assignments_by_employee_def Let_def sent_def split: option.splits)

lemma handleSave_db:
  assumes e: "empId d = Some e" "e \<noteq> []"
    and dl: "delete_assignments_by_employee f e db = (r1, db1)"
    and i: "insert_selected f (map (\<lambda>l. (e, l)) (selectedLocations d)) db1 = (r2, db2)"
  shows "fst (handleSave f db d) = (if r1 = None then db2 else db1)"
  using assms by (simp add: handleSave_def split: option.splits)

lemma insertable_employee_batch:
  assumes "distinct (map pair_of (employee_location_assignments db))"
  shows "insertable
           (db\<lparr>employee_location_assignments :=
                 filter (\<lambda>a. employee_id a \<noteq> e) (employee_location_assignments db)\<rparr>)
           (map (\<lambda>l. (e, l)) sel)
         = (distinct sel \<and> set sel \<subseteq> set (map loc_id (geofence_locations db)) \<and>
            (sel = [] \<or> e \<in> set (map emp_id (employees db))))"
proof -
  have a: "distinct (map pair_of (filter (\<lambda>a. employee_id a \<noteq> e) (employee_location_assignments db)))"
    using assms by (simp add: distinct_map_filter)
  have b: "distinct (map (\<lambda>l. (e, l)) sel) = distinct sel"
    by (simp add: distinct_map inj_on_def)
  have c: "set (map pair_of (filter (\<lambda>a. employee_id a \<noteq> e) (employee_location_assignments db)))
            \<inter> set (map (\<lambda>l. (e, l)) sel) = {}"
    by (auto simp: pair_of_def)
  have d: "list_all (\<lambda>p. snd p \<in> set (map loc_id (geofence_locations db))) (map (\<lambda>l. (e, l)) sel)
             = (set sel \<subseteq> set (map loc_id (geofence_locations db)))"
    by (auto simp: list_all_iff)
  have e: "list_all (\<lambda>p. fst p \<in> set (map emp_id (employees db))) (map (\<lambda>l. (e, l)) sel)
             = (sel = [] \<or> e \<in> set (map emp_id (employees db)))"
    by (cases sel) (auto simp: list_all_iff)
  show ?thesis
    unfolding insertable_def
    using a b c d e by (auto simp del: set_map map_map)
qed

text \<open>
  C9. Saving from the employee-side dialog replaces that employee's assignment rows at
  every location: the rows of every other employee are the same afterwards, whatever the
  backend answers; and with the two requests accepted and the unique-pair constraint
  holding, the employee's rows become one row per selected location (none when the
  table's constraints refuse the batch).
\<close>

theorem handleSave_replaces_employee_assignments:
  assumes e: "empId d = Some e" "e \<noteq> []"
  shows "filter (\<lambda>a. employee_id a \<noteq> e) (employee_location_assignments (fst (handleSave f db d)))
           = filter (\<lambda>a. employee_id a \<noteq> e) (employee_location_assignments db)
       \<and> (employee_requests_pass f e (selectedLocations d) \<and>
          distinct (map pair_of (employee_location_assignments db)) \<longrightarrow>
            employee_location_assignments (fst (handleSave f db d))
              = filter (\<lambda>a. employee_id a \<noteq> e) (employee_location_assignments db) @
                (if valid_locations db e (selectedLocations d)
                 then map (\<lambda>l. \<lparr>employee_id = e, location_id = l\<rparr>) (selectedLocations d)
                 else []))"
proof -
  define rows where "rows = map (\<lambda>l. (e, l)) (selectedLocations d)"
  define keep where "keep = filter (\<lambda>a. employee_id a \<noteq> e) (employee_location_assignments db)"
  obtain r1 db1 where dl: "delete_assignments_by_employee f e db = (r1, db1)"
    by (cases "delete_assignments_by_employee f e db")
  obtain r2 db2 where i: "insert_selected f rows db1 = (r2, db2)"
    by (cases "insert_selected f rows db1")
  note D = delete_by_employee_frame [OF dl]
  note I = insert_selected_frame [OF i]
  have out: "fst (handleSave f db d) = (if r1 = None then db2 else db1)"
    using handleSave_db [OF e dl] i unfolding rows_def by simp
  have new: "filter (\<lambda>a. employee_id a \<noteq> e) (map row_of rows) = []"
    by (simp add: rows_def row_of_def filter_empty_conv)
  have frame: "filter (\<lambda>a. employee_id a \<noteq> e) (employee_location_assignments (fst (handleSave f db d)))
                 = keep"
    unfolding out keep_def using D(4) I(4) new by (cases r1; cases r2) simp_all
  have full: "employee_location_assignments (fst (handleSave f db d))
              = keep @ (if valid_locations db e (selectedLocations d)
                        then map (\<lambda>l. \<lparr>employee_id = e, location_id = l\<rparr>) (selectedLocations d)
                        else [])"
    if p: "employee_requests_pass f e (selectedLocations d)"
      and u: "distinct (map pair_of (employee_location_assignments db))"
  proof -
    have r1: "r1 = None" using D(3) p by (simp add: employee_requests_pass_def)
    have k: "employee_location_assignments db1 = keep" using D(4) r1 by (simp add: keep_def)
    have "insertable db1 rows = insertable (db\<lparr>employee_location_assignments := keep\<rparr>) rows"
      by (rule insertable_cong) (simp_all add: D(1,2) k)
    also have "\<dots> = valid_locations db e (selectedLocations d)"
      unfolding keep_def rows_def valid_locations_def by (rule insertable_employee_batch [OF u])
    finally have ins: "insertable db1 rows = valid_locations db e (selectedLocations d)" .
    have r2: "(r2 = None) = (rows = [] \<or> insertable db1 rows)"
      using I(3) p by (simp add: employee_requests_pass_def rows_def)
    have nil: "rows = [] \<Longrightarrow> valid_locations db e (selectedLocations d)"
      by (simp add: rows_def valid_locations_def)
    have m: "map row_of rows = map (\<lambda>l. \<lparr>employee_id = e, location_id = l\<rparr>) (selectedLocations d)"
      by (simp add: rows_def row_of_def)
    show ?thesis
      unfolding out using r1 r2 I(4) k ins nil m by (cases r2) auto
  qed
  show ?thesis using frame full unfolding keep_def by simp
qed

theorem handleSave_replaces_employee_assignments_witness:
  "empId dlg0 = Some ''E1'' \<and> ''E1'' \<noteq> []
   \<and> employee_requests_pass no_faults ''E1'' (selectedLocations dlg0)
   \<and> distinct (map pair_of (employee_location_assignments db3))
   \<and> filter (\<lambda>a. employee_id a \<noteq> ''E1'')
         (employee_location_assignments (fst (handleSave no_faults db3 dlg0)))
       = [\<lparr>employee_id = ''E2'', location_id = ''L1''\<rparr>]
   \<and> employee_location_assignments (fst (handleSave no_faults db3 dlg0))
       = [\<lparr>employee_id = ''E2'', location_id = ''L1''\<rparr>,
          \<lparr>employee_id = ''E1'', location_id = ''L2''\<rparr>,
          \<lparr>employee_id = ''E1'', location_id = ''L3''\<rparr>]"
proof -
  have h1: "empId dlg0 = Some ''E1''" by (simp add: dlg0_def)
  have h2: "''E1'' \<noteq> []" by simp
  have h3: "employee_requests_pass no_faults ''E1'' (selectedLocations dlg0)"
    by (simp add: employee_requests_pass_def no_faults_def)
  have h4: "distinct (map pair_of (employee_location_assignments db3))"
    by (simp add: db3_def pair_of_def)
  have v: "valid_locations db3 ''E1'' (selectedLocations dlg0)"
    by (simp add: valid_locations_def db3_def dlg0_def hq_def main_office_def warehouse_def)
  have k: "filter (\<lambda>a. employee_id a \<noteq> ''E1'') (employee_location_assignments db3)
             = [\<lparr>employee_id = ''E2'', location_id = ''L1''\<rparr>]"
    by (simp add: db3_def)
  have n: "map (\<lambda>l. \<lparr>employee_id = ''E1'', location_id = l\<rparr>) (selectedLocations dlg0)
             = [\<lparr>employee_id = ''E1'', location_id = ''L2''\<rparr>,
                \<lparr>employee_id = ''E1'', location_id = ''L3''\<rparr>]"
    by (simp add: dlg0_def)
  show ?thesis
    using handleSave_replaces_employee_assignments [OF h1 h2, of no_faults db3] h1 h3 h4 v k n
    by simp
qed

subsection \<open>Deleting a location\<close>

lemma delete_location_frame:
  assumes "delete_location f l db = (r, db1)"
  shows "r = f (DeleteLocation l)"
    and "r = None \<Longrightarrow> employee_location_assignments db1 =
           filter (\<lambda>a. location_id a \<noteq> l) (employee_location_assignments db)"
    and "r = None \<Longrightarrow> geofence_locations db1 =
           filter (\<lambda>g. loc_id g \<noteq> l) (geofence_locations db)"
    and "r \<noteq> None \<Longrightarrow> employee_location_assignments db1 = employee_location_assignments db"
    and "r \<noteq> None \<Longrightarrow> geofence_locations db1 = geofence_locations db"
  using assms by (auto simp: delete_location_def Let_def sent_def split: option.splits)

text \<open>
  C2. When the operator confirms and the backend accepts the delete, no assignment row
  references the deleted location afterwards: the location's row is gone, the
  assignment table is what it was without the rows of that location, and if every
  assignment referenced an existing location before, every one does so after.
\<close>

theorem delete_location_cascades:
  assumes ok: "confirmed" "f (DeleteLocation l) = None"
  shows "filter (\<lambda>a. location_id a = l)
           (employee_location_assignments (fst (handleDeleteLocation f confirmed l db pg))) = []
       \<and> l \<notin> set (map loc_id (geofence_locations (fst (handleDeleteLocation f confirmed l db pg))))
       \<and> employee_location_assignments (fst (handleDeleteLocation f confirmed l db pg))
           = filter (\<lambda>a. location_id a \<noteq> l) (employee_location_assignments db)
       \<and> (set (map location_id (employee_location_assignments db))
             \<subseteq> set (map loc_id (geofence_locations db)) \<longrightarrow>
          set (map location_id
                 (employee_location_assignments (fst (handleDeleteLocation f confirmed l db pg))))
             \<subseteq> set (map loc_id
                 (geofence_locations (fst (handleDeleteLocation f confirmed l db pg)))))"
proof -
  obtain r db1 where dl: "delete_location f l db = (r, db1)" by (cases "delete_location f l db")
  note D = delete_location_frame [OF dl]
  have r: "r = None" using D(1) ok(2) by simp
  have out: "fst (handleDeleteLocation f confirmed l db pg) =
      fst (fetchLocations f db1 (add_toast (toast_success ''Location deleted successfully'') pg))"
    using ok(1) dl r by (simp add: handleDeleteLocation_def)
  have a: "employee_location_assignments (fst (handleDeleteLocation f confirmed l db pg))
             = filter (\<lambda>a. location_id a \<noteq> l) (employee_location_assignments db)"
    unfolding out using D(2) [OF r] by (simp add: fetchLocations_tables)
  have g: "geofence_locations (fst (handleDeleteLocation f confirmed l db pg))
             = filter (\<lambda>g. loc_id g \<noteq> l) (geofence_locations db)"
    unfolding out using D(3) [OF r] by (simp add: fetchLocations_tables)
  show ?thesis unfolding a g by (auto simp: filter_empty_conv)
qed

theorem delete_location_cascades_witness:
  "True \<and> no_faults (DeleteLocation ''L1'') = None
   \<and> filter (\<lambda>a. location_id a = ''L1'')
         (employee_location_assignments (fst (handleDeleteLocation no_faults True ''L1'' db3 pg0))) = []
   \<and> employee_location_assignments (fst (handleDeleteLocation no_faults True ''L1'' db3 pg0))
       = [\<lparr>employee_id = ''E1'', location_id = ''L2''\<rparr>]
   \<and> set (map location_id (employee_location_assignments db3))
         \<subseteq> set (map loc_id (geofence_locations db3))
   \<and> set (map location_id
           (employee_location_assignments (fst (handleDeleteLocation no_faults True ''L1'' db3 pg0))))
         \<subseteq> set (map loc_id
           (geofence_locations (fst (handleDeleteLocation no_faults True ''L1'' db3 pg0))))"
proof -
  have h: "no_faults (DeleteLocation ''L1'') = None" by (simp add: no_faults_def)
  have k: "filter (\<lambda>a. location_id a \<noteq> ''L1'') (employee_location_assignments db3)
             = [\<lparr>employee_id = ''E1'', location_id = ''L2''\<rparr>]"
    by (simp add: db3_def)
  have i: "set (map location_id (employee_location_assignments db3))
             \<subseteq> set (map loc_id (geofence_locations db3))"
    by (simp add: db3_def hq_def main_office_def warehouse_def)
  note T = delete_location_cascades [of True no_faults "''L1''" db3 pg0, OF TrueI h]
  have c1: "filter (\<lambda>a. location_id a = ''L1'')
         (employee_location_assignments (fst (handleDeleteLocation no_faults True ''L1'' db3 pg0))) = []"
    using T by blast
  have c3: "employee_location_assignments (fst (handleDeleteLocation no_faults True ''L1'' db3 pg0))
       = [\<lparr>employee_id = ''E1'', location_id = ''L2''\<rparr>]"
    using T k by simp
  have c4: "set (map location_id
           (employee_location_assignments (fst (handleDeleteLocation no_faults True ''L1'' db3 pg0))))
         \<subseteq> set (map loc_id
           (geofence_locations (fst (handleDeleteLocation no_faults True ''L1'' db3 pg0))))"
    using T i by blast
  show ?thesis
    using h c1 c3 c4 i by blast
qed

subsection \<open>Listing the locations\<close>

lemma with_employees_item:
  "fst (with_employees f g db) =
     (if f (SelectAssignments (loc_id g)) = None
      then \<lparr>row = g,
            assigned_employees = Some (map employee_id
               (filter (\<lambda>a. location_id a = loc_id g) (employee_location_assignments db))),
            employee_details = Some (map (\<lambda>a. embedded_employee db (employee_id a))
               (filter (\<lambda>a. location_id a = loc_id g) (employee_location_assignments db)))\<rparr>
      else \<lparr>row = g, assigned_employees = None, employee_details = None\<rparr>)"
  by (auto simp: with_employees_def select_assignments_def Let_def comp_def split: option.splits)

lemma with_employees_item_cong:
  assumes "employees db1 = employees db"
    and "employee_location_assignments db1 = employee_location_assignments db"
  shows "fst (with_employees f g db1) = fst (with_employees f g db)"
  unfolding with_employees_item using assms by (simp add: embedded_employee_def)

lemma locationsWithEmployees_items:
  assumes "employees db1 = employees db"
    and "employee_location_assignments db1 = employee_location_assignments db"
  shows "fst (locationsWithEmployees f gs db1) = map (\<lambda>g. fst (with_employees f g db)) gs"
  using assms
proof (induction gs arbitrary: db1)
  case Nil
  show ?case by simp
next
  case (Cons g gs)
  have t: "employees (snd (with_employees f g db1)) = employees db"
          "employee_location_assignments (snd (with_employees f g db1)) = employee_location_assignments db"
    using with_employees_tables [of f g db1] Cons.prems by simp_all
  show ?case
    using Cons.IH [OF t] with_employees_item_cong [OF Cons.prems, of f g]
    by (simp add: split_beta Let_def)
qed

lemma sorted_newest_first:
  "sorted_wrt (\<lambda>a b. created_at a \<ge> created_at b) (sort_key (\<lambda>g. - created_at g) gs)"
proof -
  have "sorted (map (\<lambda>g. - created_at g) (sort_key (\<lambda>g. - created_at g) gs))"
    by (rule sorted_sort_key)
  then show ?thesis by (simp add: sorted_map)
qed

text \<open>
  C4. When the location query is answered, the page lists every location row, newest
  first; a location whose assignment query is answered carries the employee ids of its
  assignment rows, one whose assignment query fails carries no list, and no toast is
  shown. When the location query fails the list shown stays as it was and one toast
  reports the failure. Loading is over in both cases.
\<close>

theorem fetchLocations_lists_all:
  shows "(f SelectLocations = None \<longrightarrow>
            map row (locations (snd (fetchLocations f db pg)))
              = sort_key (\<lambda>g. - created_at g) (geofence_locations db)
          \<and> mset (map row (locations (snd (fetchLocations f db pg)))) = mset (geofence_locations db)
          \<and> sorted_wrt (\<lambda>a b. created_at (row a) \<ge> created_at (row b))
               (locations (snd (fetchLocations f db pg)))
          \<and> (\<forall>i \<in> set (locations (snd (fetchLocations f db pg))).
                assigned_employees i =
                  (if f (SelectAssignments (loc_id (row i))) = None
                   then Some (map employee_id
                          (filter (\<lambda>a. location_id a = loc_id (row i))
                             (employee_location_assignments db)))
                   else None))
          \<and> toasts (snd (fetchLocations f db pg)) = toasts pg)
       \<and> (f SelectLocations \<noteq> None \<longrightarrow>
            locations (snd (fetchLocations f db pg)) = locations pg
          \<and> toasts (snd (fetchLocations f db pg))
              = toasts pg @ [toast_error ''Failed to load geofence locations''])
       \<and> \<not> isLoading (snd (fetchLocations f db pg))"
proof (cases "f SelectLocations")
  case (Some e)
  then show ?thesis
    by (simp add: fetchLocations_def select_locations_def Let_def add_toast_def)
next
  case None
  define gs where "gs = sort_key (\<lambda>g. - created_at g) (geofence_locations db)"
  have sel: "select_locations f db = (Inr gs, sent SelectLocations db)"
    using None by (simp add: select_locations_def Let_def gs_def)
  have items: "fst (locationsWithEmployees f gs (sent SelectLocations db))
                 = map (\<lambda>g. fst (with_employees f g db)) gs"
    by (rule locationsWithEmployees_items) simp_all
  have pg: "snd (fetchLocations f db pg) =
      pg\<lparr>isLoading := False, locations := map (\<lambda>g. fst (with_employees f g db)) gs\<rparr>"
    using sel items by (simp add: fetchLocations_def Let_def split_beta)
  have rowitem: "row (fst (with_employees f g db)) = g" for g
    by (simp add: with_employees_item)
  have rows: "map row (map (\<lambda>g. fst (with_employees f g db)) gs) = gs"
    by (simp add: rowitem comp_def)
  have srt: "sorted_wrt (\<lambda>a b. created_at (row a) \<ge> created_at (row b))
               (map (\<lambda>g. fst (with_employees f g db)) gs)"
    unfolding sorted_wrt_map rowitem gs_def by (rule sorted_newest_first)
  have ms: "mset gs = mset (geofence_locations db)"
    by (simp add: gs_def)
  have asg: "assigned_employees (fst (with_employees f g db)) =
                  (if f (SelectAssignments (loc_id g)) = None
                   then Some (map employee_id
                          (filter (\<lambda>a. location_id a = loc_id g)
                             (employee_location_assignments db)))
                   else None)" for g
    by (simp add: with_employees_item)
  have c1: "map row (locations (snd (fetchLocations f db pg))) = gs"
    unfolding pg using rows by simp
  have c3: "sorted_wrt (\<lambda>a b. created_at (row a) \<ge> created_at (row b))
               (locations (snd (fetchLocations f db pg)))"
    unfolding pg using srt by simp
  have c4: "\<forall>i \<in> set (locations (snd (fetchLocations f db pg))).
                assigned_employees i =
                  (if f (SelectAssignments (loc_id (row i))) = None
                   then Some (map employee_id
                          (filter (\<lambda>a. location_id a = loc_id (row i))
                             (employee_location_assignments db)))
                   else None)"
    unfolding pg using asg rowitem by (simp add: ball_simps)
  have c5: "toasts (snd (fetchLocations f db pg)) = toasts pg"
      "\<not> isLoading (snd (fetchLocations f db pg))"
    unfolding pg by simp_all
  show ?thesis
    unfolding c1 using None c3 c4 c5 ms by (simp add: gs_def)
qed

theorem fetchLocations_lists_all_witness:
  "faults_L2 SelectLocations = None
   \<and> map row (locations (snd (fetchLocations faults_L2 db3 pg0))) = [warehouse, main_office, hq]
   \<and> map assigned_employees (locations (snd (fetchLocations faults_L2 db3 pg0)))
       = [Some [], None, Some [''E1'', ''E2'']]
   \<and> toasts (snd (fetchLocations faults_L2 db3 pg0)) = []
   \<and> faults_list SelectLocations \<noteq> None
   \<and> locations (snd (fetchLocations faults_list db3 pg0)) = [hq_item]
   \<and> toasts (snd (fetchLocations faults_list db3 pg0))
       = [toast_error ''Failed to load geofence locations'']"
proof -
  have h1: "faults_L2 SelectLocations = None" by (simp add: faults_L2_def)
  have h2: "faults_list SelectLocations \<noteq> None" by (simp add: faults_list_def)
  have s: "sort_key (\<lambda>g. - created_at g) (geofence_locations db3) = [warehouse, main_office, hq]"
    by (simp add: db3_def hq_def main_office_def warehouse_def)
  have a: "map assigned_employees (locations (snd (fetchLocations faults_L2 db3 pg0)))
       = [Some [], None, Some [''E1'', ''E2'']]"
    by (simp add: fetchLocations_def select_locations_def Let_def h1 s with_employees_def
          select_assignments_def faults_L2_def sent_def db3_def
          hq_def main_office_def warehouse_def embedded_employee_def)
  show ?thesis
    using fetchLocations_lists_all [of faults_L2 db3 pg0]
      fetchLocations_lists_all [of faults_list db3 pg0] h1 h2 s a
    by (simp add: pg0_def)
qed

subsection \<open>Validating the location form\<close>

lemma in_range_iff:
  "(js_ge n (Fin lo) \<and> js_le n (Fin hi)) = (\<exists>x. n = Fin x \<and> lo \<le> x \<and> x \<le> hi)"
  by (cases n) (auto simp: js_ge_def)

lemma positive_iff:
  "js_gt n (Fin 0) = (n = PosInf \<or> (\<exists>x. n = Fin x \<and> 0 < x))"
  by (cases n) (auto simp: js_gt_def)

lemma formSchema_Some_iff:
  "(formSchema v \<noteq> None) =
     (\<exists>lat lon r. number_or_string True (in_latitude v) = Some lat \<and>
        number_or_string True (in_longitude v) = Some lon \<and>
        number_or_string False (in_radius v) = Some r \<and>
        in_name v \<noteq> [] \<and> in_address v \<noteq> [] \<and>
        (js_ge lat (Fin (- 90)) \<and> js_le lat (Fin 90)) \<and>
        (js_ge lon (Fin (- 180)) \<and> js_le lon (Fin 180)) \<and> js_gt r (Fin 0))"
  by (cases "number_or_string True (in_latitude v)"; cases "number_or_string True (in_longitude v)";
      cases "number_or_string False (in_radius v)")
     (auto simp: formSchema_def Suc_le_eq)

text \<open>
  C3. The schema accepts an input exactly when name and address are non-empty, the
  latitude is a number in [-90, 90], the longitude a number in [-180, 180] and the
  radius a number greater than 0, where a numeric field is a number or a decimal string
  read as one; in particular for fields given as numbers. A radius of 0 or less is
  refused. When the schema refuses the input, submitting the form changes neither the
  database nor the page and sends no request.
\<close>

theorem formSchema_accepts_iff:
  "((formSchema v \<noteq> None) =
      (in_name v \<noteq> [] \<and> in_address v \<noteq> [] \<and>
       (\<exists>x. number_or_string True (in_latitude v) = Some (Fin x) \<and> - 90 \<le> x \<and> x \<le> 90) \<and>
       (\<exists>x. number_or_string True (in_longitude v) = Some (Fin x) \<and> - 180 \<le> x \<and> x \<le> 180) \<and>
       (number_or_string False (in_radius v) = Some PosInf \<or>
        (\<exists>x. number_or_string False (in_radius v) = Some (Fin x) \<and> 0 < x))))
   \<and> (in_latitude v = NumIn lat \<and> in_longitude v = NumIn lon \<and> in_radius v = NumIn r \<longrightarrow>
        (formSchema v \<noteq> None) =
          (in_name v \<noteq> [] \<and> in_address v \<noteq> [] \<and>
           (\<exists>x. lat = Fin x \<and> - 90 \<le> x \<and> x \<le> 90) \<and>
           (\<exists>x. lon = Fin x \<and> - 180 \<le> x \<and> x \<le> 180) \<and>
           (r = PosInf \<or> (\<exists>x. r = Fin x \<and> 0 < x))))
   \<and> (in_radius v = NumIn (Fin x) \<and> x \<le> 0 \<longrightarrow> formSchema v = None)
   \<and> (formSchema v = None \<longrightarrow> submit_form f now fresh v db pg = (db, pg))"
proof -
  have a: "(formSchema v \<noteq> None) =
      (in_name v \<noteq> [] \<and> in_address v \<noteq> [] \<and>
       (\<exists>x. number_or_string True (in_latitude v) = Some (Fin x) \<and> - 90 \<le> x \<and> x \<le> 90) \<and>
       (\<exists>x. number_or_string True (in_longitude v) = Some (Fin x) \<and> - 180 \<le> x \<and> x \<le> 180) \<and>
       (number_or_string False (in_radius v) = Some PosInf \<or>
        (\<exists>x. number_or_string False (in_radius v) = Some (Fin x) \<and> 0 < x)))"
    unfolding formSchema_Some_iff in_range_iff positive_iff by auto
  have b: "(formSchema v \<noteq> None) =
          (in_name v \<noteq> [] \<and> in_address v \<noteq> [] \<and>
           (\<exists>x. lat = Fin x \<and> - 90 \<le> x \<and> x \<le> 90) \<and>
           (\<exists>x. lon = Fin x \<and> - 180 \<le> x \<and> x \<le> 180) \<and>
           (r = PosInf \<or> (\<exists>x. r = Fin x \<and> 0 < x)))"
    if "in_latitude v = NumIn lat \<and> in_longitude v = NumIn lon \<and> in_radius v = NumIn r"
    unfolding a using that by (auto simp: number_or_string_def)
  have c: "formSchema v = None" if "in_radius v = NumIn (Fin x) \<and> x \<le> 0"
  proof -
    have "\<not> (formSchema v \<noteq> None)"
      unfolding a using that by (auto simp: number_or_string_def)
    then show ?thesis by simp
  qed
  have d: "submit_form f now fresh v db pg = (db, pg)" if "formSchema v = None"
    using that by (simp add: submit_form_def)
  show ?thesis using a b c d by blast
qed

theorem formSchema_accepts_iff_witness:
  "in_latitude good_input = NumIn (Fin (- 6.2)) \<and> in_longitude good_input = NumIn (Fin 106.8)
   \<and> in_radius good_input = NumIn (Fin 100)
   \<and> formSchema good_input \<noteq> None
   \<and> formSchema text_input \<noteq> None
   \<and> in_radius zero_radius_input = NumIn (Fin 0) \<and> (0::real) \<le> 0
   \<and> formSchema zero_radius_input = None
   \<and> submit_form no_faults 20 ''L9'' zero_radius_input db0 pg0 = (db0, pg0)"
proof -
  have t: "in_latitude good_input = NumIn (Fin (- 6.2)) \<and> in_longitude good_input = NumIn (Fin 106.8)
           \<and> in_radius good_input = NumIn (Fin 100)"
    by (simp add: good_input_def)
  have e1: "\<exists>x. Fin (- 6.2) = Fin x \<and> - 90 \<le> x \<and> x \<le> 90"
    by (rule exI [of _ "- 6.2"]) simp
  have e2: "\<exists>x. Fin 106.8 = Fin x \<and> - 180 \<le> x \<and> x \<le> 180"
    by (rule exI [of _ "106.8"]) simp
  have e3: "Fin 100 = PosInf \<or> (\<exists>x. Fin 100 = Fin x \<and> 0 < x)"
    by (rule disjI2, rule exI [of _ "100"]) simp
  have e0: "in_name good_input \<noteq> [] \<and> in_address good_input \<noteq> []"
    by (simp add: good_input_def)
  have g: "formSchema good_input \<noteq> None"
    unfolding formSchema_accepts_iff [of good_input "Fin (- 6.2)" "Fin 106.8" "Fin 100" 0 no_faults
        0 "[]" db0 pg0, THEN conjunct2, THEN conjunct1, THEN mp, OF t]
    using e0 e1 e2 e3 by blast
  have lat: "\<exists>x. number_or_string True (in_latitude text_input) = Some (Fin x)
               \<and> - 90 \<le> x \<and> x \<le> 90"
    by (rule exI [of _ "- 6.2"]) (simp add: text_input_def good_input_def number_or_string_def)
  have lon: "\<exists>x. number_or_string True (in_longitude text_input) = Some (Fin x)
               \<and> - 180 \<le> x \<and> x \<le> 180"
    by (rule exI [of _ "106.8"])
       (simp add: text_input_def number_or_string_def matches_unsigned_def matches_signed_def
          js_Number_def unsigned_value_def is_digit_def digits_val_def digit_val_def)
  have rad: "\<exists>x. number_or_string False (in_radius text_input) = Some (Fin x) \<and> 0 < x"
    by (rule exI [of _ "100"]) (simp add: text_input_def good_input_def number_or_string_def)
  have nm: "in_name text_input \<noteq> [] \<and> in_address text_input \<noteq> []"
    by (simp add: text_input_def good_input_def)
  have x: "formSchema text_input \<noteq> None"
    unfolding formSchema_accepts_iff [THEN conjunct1]
    using lat lon rad nm by blast
  have r: "in_radius zero_radius_input = NumIn (Fin 0) \<and> (0::real) \<le> 0"
    by (simp add: zero_radius_input_def)
  have z: "formSchema zero_radius_input = None"
    by (rule formSchema_accepts_iff [of zero_radius_input NaN NaN NaN 0 no_faults 0 "[]" db0 pg0,
          THEN conjunct2, THEN conjunct2, THEN conjunct1, THEN mp, OF r])
  have s: "submit_form no_faults 20 ''L9'' zero_radius_input db0 pg0 = (db0, pg0)"
    by (rule formSchema_accepts_iff [of zero_radius_input NaN NaN NaN 0 no_faults 20 "''L9''" db0 pg0,
          THEN conjunct2, THEN conjunct2, THEN conjunct2, THEN mp, OF z])
  show ?thesis using t g x r z s by simp
qed

subsection \<open>Searching the map\<close>

lemma starts_with_iff: "starts_with s q = (\<exists>ss. s = q @ ss)"
  by (induction s q rule: starts_with.induct) auto

lemma includes_str_iff: "includes_str s q = (\<exists>ps ss. s = ps @ q @ ss)"
proof (induction s)
  case Nil
  show ?case by auto
next
  case (Cons c cs)
  show ?case
  proof
    assume "includes_str (c # cs) q"
    then consider "starts_with (c # cs) q" | "includes_str cs q" by auto
    then show "\<exists>ps ss. c # cs = ps @ q @ ss"
    proof cases
      case 1
      then obtain ss where "c # cs = q @ ss" unfolding starts_with_iff by blast
      then have "c # cs = [] @ q @ ss" by simp
      then show ?thesis by blast
    next
      case 2
      then obtain ps ss where "cs = ps @ q @ ss" using Cons.IH by blast
      then have "c # cs = (c # ps) @ q @ ss" by simp
      then show ?thesis by blast
    qed
  next
    assume "\<exists>ps ss. c # cs = ps @ q @ ss"
    then obtain ps ss where e: "c # cs = ps @ q @ ss" by blast
    show "includes_str (c # cs) q"
    proof (cases ps)
      case Nil
      then have "starts_with (c # cs) q" unfolding starts_with_iff using e by auto
      then show ?thesis by simp
    next
      case (Cons p ps')
      then have "cs = ps' @ q @ ss" using e by simp
      then have "includes_str cs q" using Cons.IH by blast
      then show ?thesis by simp
    qed
  qed
qed

lemma contains_ci_code: "contains_ci s q = includes_str (toLowerCase s) (toLowerCase q)"
  by (simp add: contains_ci_def includes_str_iff)

lemma is_space_lower_char: "is_space (lower_char c) = is_space c"
  by (auto simp: lower_char_def is_space_def split: if_splits)

lemma toLowerCase_dropWhile:
  "dropWhile is_space (toLowerCase s) = toLowerCase (dropWhile is_space s)"
  by (simp add: toLowerCase_def dropWhile_map comp_def is_space_lower_char)

lemma toLowerCase_rev: "rev (toLowerCase s) = toLowerCase (rev s)"
  by (simp add: toLowerCase_def rev_map)

lemma trim_toLowerCase: "trim (toLowerCase s) = toLowerCase (trim s)"
  by (simp add: trim_def toLowerCase_dropWhile toLowerCase_rev)

lemma contains_ci_nonempty:
  assumes "q \<noteq> []" and "contains_ci s q"
  shows "s \<noteq> []"
proof
  assume "s = []"
  then have "\<exists>ps ss. [] = ps @ toLowerCase q @ ss"
    using assms(2) by (simp add: contains_ci_def toLowerCase_def)
  then show False using assms(1) by (simp add: toLowerCase_def)
qed

lemma filteredLocations_eq:
  "filteredLocations query locs =
     (if trim query = [] then locs
      else filter (\<lambda>l. contains_ci (loc_name (row l)) (trim query)
                     \<or> contains_ci (loc_address (row l)) (trim query)) locs)"
proof -
  have m: "(if s \<noteq> [] then includes_str (toLowerCase s) (trim (toLowerCase query)) else False)
            = contains_ci s (trim query)" if "trim query \<noteq> []" for s
    using that contains_ci_nonempty [of "trim query" s]
    by (auto simp: contains_ci_code trim_toLowerCase)
  show ?thesis
    by (simp add: filteredLocations_def Let_def m)
qed

text \<open>
  C5, as the code has it. The query is trimmed first: for every list of locations and
  every query whose trimmed form is non-empty, the filter keeps exactly the locations
  whose name or address contains the trimmed query when case is ignored; a query that
  is empty or white space keeps every location. The query \<open>office\<close> keeps a location
  named \<open>Main Office\<close> and one whose address is \<open>12 Office Park\<close>.
\<close>

theorem filteredLocations_trimmed_query:
  "filteredLocations query locs =
     (if trim query = [] then locs
      else filter (\<lambda>l. contains_ci (loc_name (row l)) (trim query)
                     \<or> contains_ci (loc_address (row l)) (trim query)) locs)
   \<and> (l \<in> set locs \<and> (loc_name (row l) = ''Main Office'' \<or> loc_address (row l) = ''12 Office Park'')
        \<longrightarrow> l \<in> set (filteredLocations ''office'' locs))"
proof -
  have t: "trim ''office'' = ''office''"
    by (simp add: trim_def is_space_def)
  have n: "contains_ci ''Main Office'' ''office''"
    by (simp add: contains_ci_code toLowerCase_def lower_char_def)
  have d: "contains_ci ''12 Office Park'' ''office''"
    by (simp add: contains_ci_code toLowerCase_def lower_char_def)
  have b: "l \<in> set (filteredLocations ''office'' locs)"
    if "l \<in> set locs \<and> (loc_name (row l) = ''Main Office'' \<or> loc_address (row l) = ''12 Office Park'')"
    using that n d by (auto simp: filteredLocations_eq t)
  show ?thesis using filteredLocations_eq [of query locs] b by blast
qed

theorem filteredLocations_trimmed_query_witness:
  "main_office_item \<in> set [hq_item, main_office_item, warehouse_item]
   \<and> loc_name (row main_office_item) = ''Main Office''
   \<and> main_office_item \<in> set (filteredLocations ''office'' [hq_item, main_office_item, warehouse_item])
   \<and> loc_address (row warehouse_item) = ''12 Office Park''
   \<and> warehouse_item \<in> set (filteredLocations ''office'' [hq_item, main_office_item, warehouse_item])"
proof -
  have h1: "main_office_item \<in> set [hq_item, main_office_item, warehouse_item]"
    and h2: "warehouse_item \<in> set [hq_item, main_office_item, warehouse_item]" by simp_all
  have n1: "loc_name (row main_office_item) = ''Main Office''"
    by (simp add: main_office_item_def main_office_def)
  have n2: "loc_address (row warehouse_item) = ''12 Office Park''"
    by (simp add: warehouse_item_def warehouse_def)
  show ?thesis
    using filteredLocations_trimmed_query [of "''office''" "[hq_item, main_office_item, warehouse_item]" main_office_item]
      filteredLocations_trimmed_query [of "''office''" "[hq_item, main_office_item, warehouse_item]" warehouse_item]
      h1 h2 n1 n2
    by blast
qed

text \<open>
  The query \<open>office\<close> followed by a space is not empty and occurs in neither the name
  \<open>Main Office\<close> nor the address of that location, yet the filter keeps the location.
\<close>

theorem filter_untrimmed_query_counterexample:
  "''office '' \<noteq> []
   \<and> filteredLocations ''office '' [main_office_item] = [main_office_item]
   \<and> \<not> contains_ci (loc_name (row main_office_item)) ''office ''
   \<and> \<not> contains_ci (loc_address (row main_office_item)) ''office ''"
  by (simp add: filteredLocations_def Let_def trim_def is_space_def toLowerCase_def lower_char_def
        contains_ci_code main_office_item_def main_office_def)

subsection \<open>Registration\<close>

lemma uploadFile_effect:
  "fst (uploadFile f url fl u t st) =
     (if f (StorageUpload (document_path u t fl)) = None
      then Some (getPublicUrl url (document_path u t fl)) else None)"
  "account_requests (snd (uploadFile f url fl u t st)) =
     account_requests st @ [StorageUpload (document_path u t fl)]"
  "profiles (snd (uploadFile f url fl u t st)) = profiles st"
  by (auto simp: uploadFile_def Let_def document_path_def account_sent_def getPublicUrl_def
      split: option.splits)

lemma upload_if_provided_effect:
  "fst (upload_if_provided f url fileList u t st) =
     (case provided fileList of
        [] \<Rightarrow> None
      | fl # rest \<Rightarrow>
          if f (StorageUpload (document_path u t fl)) = None
          then Some (getPublicUrl url (document_path u t fl)) else None)"
  "account_requests (snd (upload_if_provided f url fileList u t st)) =
     account_requests st @ map (\<lambda>fl. StorageUpload (document_path u t fl)) (provided fileList)"
  "profiles (snd (upload_if_provided f url fileList u t st)) = profiles st"
  by (auto simp: upload_if_provided_def provided_def uploadFile_effect split: option.splits list.splits)

lemma no_insert_policy: "\<not> policy_permits InsertCommand uid p"
  by (simp add: policy_permits_def profiles_policies_def)

lemma upsert_profile_effect:
  "account_requests (snd (upsert_profile f uid p st))
     = account_requests st @ [UpsertProfile (profile_id p)]"
  "f (UpsertProfile (profile_id p)) \<noteq> None \<Longrightarrow>
     profiles (snd (upsert_profile f uid p st)) = profiles st"
  by (auto simp: upsert_profile_def Let_def account_sent_def split: option.splits)

lemma upsert_profile_refused:
  "profiles (snd (upsert_profile f uid p st)) = profiles st"
  "fst (upsert_profile f uid p st) \<noteq> None"
  by (auto simp: upsert_profile_def Let_def account_sent_def no_insert_policy split: option.splits)

lemma uploadFile_documents:
  "f (StorageUpload (document_path u t fl)) \<noteq> None \<Longrightarrow>
     user_documents (snd (uploadFile f url fl u t st)) = user_documents st"
  by (auto simp: uploadFile_def Let_def document_path_def account_sent_def split: option.splits)

lemma upsert_profile_documents:
  "user_documents (snd (upsert_profile f uid p st)) = user_documents st"
  by (auto simp: upsert_profile_def Let_def account_sent_def split: option.splits)

lemma upload_documents_effect:
  "fst (upload_documents f url files u st) =
     (case files of
        None \<Rightarrow> (None, None, None, None)
      | Some fs \<Rightarrow>
          (fst (upload_if_provided f url (selfie fs) u ''selfie'' st),
           fst (upload_if_provided f url (ktp fs) u ''ktp'' st),
           fst (upload_if_provided f url (kk fs) u ''kk'' st),
           fst (upload_if_provided f url (cv fs) u ''cv'' st)))"
  "account_requests (snd (upload_documents f url files u st)) =
     account_requests st @ upload_requests u files"
  "profiles (snd (upload_documents f url files u st)) = profiles st"
proof -
  show "fst (upload_documents f url files u st) =
     (case files of
        None \<Rightarrow> (None, None, None, None)
      | Some fs \<Rightarrow>
          (fst (upload_if_provided f url (selfie fs) u ''selfie'' st),
           fst (upload_if_provided f url (ktp fs) u ''ktp'' st),
           fst (upload_if_provided f url (kk fs) u ''kk'' st),
           fst (upload_if_provided f url (cv fs) u ''cv'' st)))"
    by (cases files) (simp_all add: upload_documents_def split_beta Let_def upload_if_provided_effect(1))
  show "account_requests (snd (upload_documents f url files u st)) =
     account_requests st @ upload_requests u files"
    by (cases files)
       (simp_all add: upload_documents_def upload_requests_def split_beta Let_def
          upload_if_provided_effect)
  show "profiles (snd (upload_documents f url files u st)) = profiles st"
    by (cases files)
       (simp_all add: upload_documents_def split_beta Let_def upload_if_provided_effect)
qed

lemma signUp_registered:
  assumes "user d = Some u" and "md = Some m"
  shows "signUp f url now (AuthReturned d e) email pw md files st =
           (\<lparr>result_data = Some d, result_error = e\<rparr>,
            snd (upsert_profile f (session_user d)
                   (profile_row u m now
                      (fst (upload_documents f url files u (account_sent (AuthSignUp email) st))))
                   (snd (upload_documents f url files u (account_sent (AuthSignUp email) st)))))"
  using assms by (simp add: signUp_def Let_def split_beta)

lemma signUp_unregistered:
  assumes "user d = None \<or> md = None"
  shows "signUp f url now (AuthReturned d e) email pw md files st =
           (\<lparr>result_data = Some d, result_error = e\<rparr>, account_sent (AuthSignUp email) st)"
proof (cases "user d")
  case None
  then show ?thesis by (simp add: signUp_def Let_def)
next
  case (Some u)
  then have "md = None" using assms by simp
  then show ?thesis using Some by (simp add: signUp_def Let_def)
qed

lemma signUp_threw:
  "signUp f url now (AuthThrew x) email pw md files st =
     (\<lparr>result_data = None, result_error = Some x\<rparr>, account_sent (AuthSignUp email) st)"
  by (simp add: signUp_def Let_def)

text \<open>
  C6. When the identity call returns, \<open>signUp\<close> returns exactly its data and error,
  whatever the backend answers to the uploads and to the profile write. When the profile
  write is refused, the \<open>profiles\<close> table is left as it was and the result is the one
  an accepted request would have given.
\<close>

theorem signUp_result_ignores_profile_write:
  "fst (signUp f url now (AuthReturned d e) email pw md files st)
     = \<lparr>result_data = Some d, result_error = e\<rparr>
   \<and> (user d = Some u \<and> md = Some m \<and> f (UpsertProfile u) = Some err \<longrightarrow>
        profiles (snd (signUp f url now (AuthReturned d e) email pw md files st)) = profiles st
        \<and> fst (signUp f url now (AuthReturned d e) email pw md files st)
            = fst (signUp (f(UpsertProfile u := None)) url now (AuthReturned d e) email pw md files st))"
proof -
  have a: "fst (signUp g url now (AuthReturned d e) email pw md files st)
             = \<lparr>result_data = Some d, result_error = e\<rparr>" for g
  proof (cases "user d = None \<or> md = None")
    case True
    then show ?thesis by (simp add: signUp_unregistered)
  next
    case False
    then obtain u' m' where "user d = Some u'" "md = Some m'" by auto
    then show ?thesis by (simp add: signUp_registered)
  qed
  have b: "profiles (snd (signUp f url now (AuthReturned d e) email pw md files st)) = profiles st"
    if "user d = Some u \<and> md = Some m \<and> f (UpsertProfile u) = Some err"
  proof -
    have p: "profile_id (profile_row u m now urls) = u" for urls
      by (cases urls) (simp add: profile_row_def)
    show ?thesis
      using that
      by (simp add: signUp_registered upsert_profile_effect(2) p upload_documents_effect(3)
            account_sent_def)
  qed
  show ?thesis
  proof (intro conjI impI)
    show "fst (signUp f url now (AuthReturned d e) email pw md files st)
            = \<lparr>result_data = Some d, result_error = e\<rparr>"
      by (rule a)
  next
    assume "user d = Some u \<and> md = Some m \<and> f (UpsertProfile u) = Some err"
    then show "profiles (snd (signUp f url now (AuthReturned d e) email pw md files st)) = profiles st"
      by (rule b)
  next
    show "fst (signUp f url now (AuthReturned d e) email pw md files st)
            = fst (signUp (f(UpsertProfile u := None)) url now (AuthReturned d e) email pw md files st)"
      unfolding a ..
  qed
qed

theorem signUp_result_ignores_profile_write_witness:
  "user \<lparr>user = Some ''U1'', session_user = Some ''U1''\<rparr> = Some ''U1''
   \<and> profile_write_fails (UpsertProfile ''U1'') = Some ''refused''
   \<and> fst (signUp profile_write_fails ''https://p.supabase.co'' 5 registered ''ani@example.id'' ''secret''
            (Some meta0) (Some files0) store0)
       = \<lparr>result_data = Some \<lparr>user = Some ''U1'', session_user = Some ''U1''\<rparr>, result_error = None\<rparr>
   \<and> profiles (snd (signUp profile_write_fails ''https://p.supabase.co'' 5 registered ''ani@example.id''
            ''secret'' (Some meta0) (Some files0) store0)) = []"
proof -
  have h: "user \<lparr>user = Some ''U1'', session_user = Some ''U1''\<rparr> = Some ''U1''
           \<and> Some meta0 = Some meta0 \<and> profile_write_fails (UpsertProfile ''U1'') = Some ''refused''"
    by (simp add: profile_write_fails_def)
  note T = signUp_result_ignores_profile_write
      [of profile_write_fails "''https://p.supabase.co''" 5 "\<lparr>user = Some ''U1'', session_user = Some ''U1''\<rparr>" None
          "''ani@example.id''" "''secret''" "Some meta0" "Some files0" store0 "''U1''" meta0 "''refused''"]
  have a: "fst (signUp profile_write_fails ''https://p.supabase.co'' 5 registered ''ani@example.id'' ''secret''
            (Some meta0) (Some files0) store0)
       = \<lparr>result_data = Some \<lparr>user = Some ''U1'', session_user = Some ''U1''\<rparr>, result_error = None\<rparr>"
    unfolding registered_def by (rule T [THEN conjunct1])
  have b: "profiles (snd (signUp profile_write_fails ''https://p.supabase.co'' 5 registered ''ani@example.id''
            ''secret'' (Some meta0) (Some files0) store0)) = profiles store0"
    unfolding registered_def by (rule T [THEN conjunct2, THEN mp, OF h, THEN conjunct1])
  show ?thesis using h a b by (simp add: store0_def)
qed

text \<open>
  C10. When the identity call throws, returns no user, or no metadata was supplied,
  \<open>signUp\<close> leaves the \<open>profiles\<close> table and the document bucket as they were, and
  the identity request is the only request it sends.
\<close>

theorem signUp_without_user_writes_nothing:
  "(auth = AuthThrew x \<or> (auth = AuthReturned d e \<and> (user d = None \<or> md = None)) \<longrightarrow>
      profiles (snd (signUp f url now auth email pw md files st)) = profiles st
    \<and> user_documents (snd (signUp f url now auth email pw md files st)) = user_documents st
    \<and> account_requests (snd (signUp f url now auth email pw md files st))
        = account_requests st @ [AuthSignUp email])"
  by (auto simp: signUp_threw signUp_unregistered account_sent_def)

theorem signUp_without_user_writes_nothing_witness:
  "unregistered = AuthReturned \<lparr>user = None, session_user = None\<rparr> (Some ''User already registered'')
   \<and> user \<lparr>user = None, session_user = None\<rparr> = None
   \<and> profiles (snd (signUp no_account_faults ''https://p.supabase.co'' 5 unregistered ''ani@example.id''
         ''secret'' (Some meta0) (Some files0) store0)) = []
   \<and> user_documents (snd (signUp no_account_faults ''https://p.supabase.co'' 5 unregistered
         ''ani@example.id'' ''secret'' (Some meta0) (Some files0) store0)) = []
   \<and> account_requests (snd (signUp no_account_faults ''https://p.supabase.co'' 5 unregistered
         ''ani@example.id'' ''secret'' (Some meta0) (Some files0) store0)) = [AuthSignUp ''ani@example.id'']
   \<and> registered = AuthReturned \<lparr>user = Some ''U1'', session_user = Some ''U1''\<rparr> None
   \<and> profiles (snd (signUp no_account_faults ''https://p.supabase.co'' 5 registered ''ani@example.id''
         ''secret'' None (Some files0) store0)) = []
   \<and> user_documents (snd (signUp no_account_faults ''https://p.supabase.co'' 5 registered
         ''ani@example.id'' ''secret'' None (Some files0) store0)) = []
   \<and> account_requests (snd (signUp no_account_faults ''https://p.supabase.co'' 5 registered
         ''ani@example.id'' ''secret'' None (Some files0) store0)) = [AuthSignUp ''ani@example.id'']"
proof -
  have h: "unregistered = AuthReturned \<lparr>user = None, session_user = None\<rparr> (Some ''User already registered'')"
    by (simp add: unregistered_def)
  have u: "user \<lparr>user = None, session_user = None\<rparr> = None" by simp
  have h': "registered = AuthReturned \<lparr>user = Some ''U1'', session_user = Some ''U1''\<rparr> None"
    by (simp add: registered_def)
  have c: "profiles (snd (signUp no_account_faults ''https://p.supabase.co'' 5 unregistered ''ani@example.id''
         ''secret'' (Some meta0) (Some files0) store0)) = profiles store0
   \<and> user_documents (snd (signUp no_account_faults ''https://p.supabase.co'' 5 unregistered
         ''ani@example.id'' ''secret'' (Some meta0) (Some files0) store0)) = user_documents store0
   \<and> account_requests (snd (signUp no_account_faults ''https://p.supabase.co'' 5 unregistered
         ''ani@example.id'' ''secret'' (Some meta0) (Some files0) store0))
       = account_requests store0 @ [AuthSignUp ''ani@example.id'']"
    by (rule signUp_without_user_writes_nothing
          [of unregistered "''x''" "\<lparr>user = None, session_user = None\<rparr>" "Some ''User already registered''" "Some meta0"
              no_account_faults "''https://p.supabase.co''" 5 "''ani@example.id''" "''secret''"
              "Some files0" store0, THEN mp])
       (simp add: h)
  have c': "profiles (snd (signUp no_account_faults ''https://p.supabase.co'' 5 registered ''ani@example.id''
         ''secret'' None (Some files0) store0)) = profiles store0
   \<and> user_documents (snd (signUp no_account_faults ''https://p.supabase.co'' 5 registered
         ''ani@example.id'' ''secret'' None (Some files0) store0)) = user_documents store0
   \<and> account_requests (snd (signUp no_account_faults ''https://p.supabase.co'' 5 registered
         ''ani@example.id'' ''secret'' None (Some files0) store0))
       = account_requests store0 @ [AuthSignUp ''ani@example.id'']"
    by (rule signUp_without_user_writes_nothing
          [of registered "''x''" "\<lparr>user = Some ''U1'', session_user = Some ''U1''\<rparr>" None None
              no_account_faults "''https://p.supabase.co''" 5 "''ani@example.id''" "''secret''"
              "Some files0" store0, THEN mp])
       (simp add: h')
  show ?thesis using h u h' c c' by (simp add: store0_def)
qed

lemma uploadFile_stored:
  "f (StorageUpload (document_path u t fl)) = None \<Longrightarrow>
     map_of (user_documents (snd (uploadFile f url fl u t st))) (document_path u t fl) = Some fl"
  by (simp add: uploadFile_def Let_def document_path_def account_sent_def update_conv')

lemma upload_if_provided_skipped:
  "provided fileList = [] \<Longrightarrow> upload_if_provided f url fileList u t st = (None, st)"
  by (auto simp: upload_if_provided_def provided_def split: option.splits list.splits)

lemma profile_row_id: "profile_id (profile_row u m now urls) = u"
  by (cases urls) (simp add: profile_row_def)

text \<open>
  For a registered user with metadata, \<open>signUp\<close> sends the identity request, then one
  upload per file input that has content (selfie, KTP, KK, CV, in this order), then the
  profile write.
\<close>

lemma signUp_requests:
  assumes "user d = Some u" and "md = Some m"
  shows "account_requests (snd (signUp f url now (AuthReturned d e) email pw md files st))
           = account_requests st @ [AuthSignUp email] @ upload_requests u files @ [UpsertProfile u]"
  using assms
  by (simp add: signUp_registered upsert_profile_effect(1) profile_row_id
        upload_documents_effect(2) account_sent_def)

text \<open>
  The \<open>profiles\<close> table has no INSERT policy, so no run of \<open>signUp\<close> writes a profile
  row: the table is the same afterwards.
\<close>

lemma signUp_keeps_profiles:
  "profiles (snd (signUp f url now auth email pw md files st)) = profiles st"
proof (cases auth)
  case (AuthThrew x)
  then show ?thesis by (simp add: signUp_threw account_sent_def)
next
  case (AuthReturned d e)
  show ?thesis
  proof (cases "user d = None \<or> md = None")
    case True
    then show ?thesis using AuthReturned by (simp add: signUp_unregistered account_sent_def)
  next
    case False
    then obtain u m where "user d = Some u" "md = Some m" by auto
    then show ?thesis
      using AuthReturned
      by (simp add: signUp_registered upsert_profile_refused(1) upload_documents_effect(3)
            account_sent_def)
  qed
qed

text \<open>
  C7. Sign-up with valid credentials, metadata and a selfie but no KTP, KK or CV file,
  against a backend that accepts every request it can: the identity answer is returned
  as it came, the selfie alone is uploaded and stored at its path, and the profile write
  is sent; but row-level security refuses the write, so the \<open>profiles\<close> table holds no
  row for the user, with or without \<open>selfie_url\<close>.
\<close>

theorem signUp_selfie_profile_row_refused:
  "fst (signUp no_account_faults ''https://p.supabase.co'' 5 registered ''ani@example.id''
          ''secret'' (Some meta0) (Some files0) store0)
     = \<lparr>result_data = Some \<lparr>user = Some ''U1'', session_user = Some ''U1''\<rparr>, result_error = None\<rparr>
   \<and> account_requests (snd (signUp no_account_faults ''https://p.supabase.co'' 5 registered
          ''ani@example.id'' ''secret'' (Some meta0) (Some files0) store0))
       = [AuthSignUp ''ani@example.id'', StorageUpload ''documents/U1/selfie.jpg'', UpsertProfile ''U1'']
   \<and> user_documents (snd (signUp no_account_faults ''https://p.supabase.co'' 5 registered
          ''ani@example.id'' ''secret'' (Some meta0) (Some files0) store0))
       = [(''documents/U1/selfie.jpg'', selfie0)]
   \<and> find (\<lambda>q. profile_id q = ''U1'')
         (profiles (snd (signUp no_account_faults ''https://p.supabase.co'' 5 registered
            ''ani@example.id'' ''secret'' (Some meta0) (Some files0) store0))) = None
   \<and> fst (upsert_profile no_account_faults (Some ''U1'')
            (profile_row ''U1'' meta0 5
               (Some ''https://p.supabase.co/storage/v1/object/public/user-documents/documents/U1/selfie.jpg'',
                None, None, None))
            store0)
       = Some ''new row violates row-level security policy for table profiles''"
proof -
  have u: "user \<lparr>user = Some ''U1'', session_user = Some ''U1''\<rparr> = Some ''U1''" by simp
  have p: "document_path ''U1'' ''selfie'' selfie0 = ''documents/U1/selfie.jpg''"
    by (simp add: document_path_def selfie0_def fileExt_def)
  have r: "upload_requests ''U1'' (Some files0) = [StorageUpload ''documents/U1/selfie.jpg'']"
    using p by (simp add: upload_requests_def provided_def files0_def)
  have a: "fst (signUp no_account_faults ''https://p.supabase.co'' 5 registered ''ani@example.id''
          ''secret'' (Some meta0) (Some files0) store0)
     = \<lparr>result_data = Some \<lparr>user = Some ''U1'', session_user = Some ''U1''\<rparr>, result_error = None\<rparr>"
    unfolding registered_def by (simp add: signUp_registered [OF u refl])
  have b: "account_requests (snd (signUp no_account_faults ''https://p.supabase.co'' 5 registered
          ''ani@example.id'' ''secret'' (Some meta0) (Some files0) store0))
       = [AuthSignUp ''ani@example.id'', StorageUpload ''documents/U1/selfie.jpg'', UpsertProfile ''U1'']"
    unfolding registered_def using signUp_requests [OF u refl] r by (simp add: store0_def)
  have c: "user_documents (snd (signUp no_account_faults ''https://p.supabase.co'' 5 registered
          ''ani@example.id'' ''secret'' (Some meta0) (Some files0) store0))
       = [(''documents/U1/selfie.jpg'', selfie0)]"
    unfolding registered_def
    by (simp add: signUp_registered [OF u refl] upsert_profile_documents upload_documents_def
          files0_def upload_if_provided_def uploadFile_def Let_def no_account_faults_def
          account_sent_def store0_def selfie0_def fileExt_def)
  have d: "profiles (snd (signUp no_account_faults ''https://p.supabase.co'' 5 registered
            ''ani@example.id'' ''secret'' (Some meta0) (Some files0) store0)) = []"
    by (simp add: signUp_keeps_profiles store0_def)
  have e: "fst (upsert_profile no_account_faults (Some ''U1'')
            (profile_row ''U1'' meta0 5
               (Some ''https://p.supabase.co/storage/v1/object/public/user-documents/documents/U1/selfie.jpg'',
                None, None, None))
            store0)
       = Some ''new row violates row-level security policy for table profiles''"
    by (simp add: upsert_profile_def Let_def no_account_faults_def no_insert_policy)
  show ?thesis unfolding d using a b c e by simp
qed

subsection \<open>Routing\<close>

lemma lower_char_slash: "(lower_char c = CHR ''/'') = (c = CHR ''/'')"
  by (auto simp: lower_char_def split: if_splits)

lemma filter_slash_lower:
  "\<forall>c \<in> set s. c \<noteq> CHR ''/'' \<Longrightarrow>
     filter (\<lambda>c. c \<noteq> CHR ''/'') (toLowerCase s) = toLowerCase s"
  by (induction s) (simp_all add: toLowerCase_def lower_char_slash)

lemma toLowerCase_no_slash:
  "filter (\<lambda>c. c \<noteq> CHR ''/'') (toLowerCase (path_segment pat)) = toLowerCase (path_segment pat)"
  by (rule filter_slash_lower) (simp add: path_segment_def)

lemma all_slashes_filter:
  "list_all (\<lambda>c. c = CHR ''/'') rest \<Longrightarrow> filter (\<lambda>c. c \<noteq> CHR ''/'') rest = []"
  by (induction rest) auto

lemma static_match_segment:
  assumes "pat \<noteq> ''*''" and "pat = [] \<or> last pat \<noteq> CHR ''*''" and "matchPath pat p"
  shows "filter (\<lambda>c. c \<noteq> CHR ''/'') (toLowerCase p) = toLowerCase (path_segment pat)"
proof -
  define seg where "seg = CHR ''/'' # toLowerCase (path_segment pat)"
  define rest where "rest = drop (length seg) (toLowerCase p)"
  have t: "take (length seg) (toLowerCase p) = seg" and r: "list_all (\<lambda>c. c = CHR ''/'') rest"
    using assms by (auto simp: matchPath_def Let_def seg_def rest_def split: if_splits)
  have "toLowerCase p = seg @ rest"
    using t unfolding rest_def by (metis append_take_drop_id)
  then have "filter (\<lambda>c. c \<noteq> CHR ''/'') (toLowerCase p)
               = filter (\<lambda>c. c \<noteq> CHR ''/'') seg @ filter (\<lambda>c. c \<noteq> CHR ''/'') rest" by simp
  also have "\<dots> = toLowerCase (path_segment pat)"
    using all_slashes_filter [OF r] by (simp add: seg_def toLowerCase_no_slash)
  finally show ?thesis .
qed

lemma page_routes_static:
  "r \<in> set page_routes \<Longrightarrow> fst r \<noteq> ''*'' \<and> (fst r = [] \<or> last (fst r) \<noteq> CHR ''*'')"
  by (auto simp: page_routes_def)

lemma page_routes_segments:
  "distinct (map (\<lambda>r. toLowerCase (path_segment (fst r))) page_routes)"
  by (simp add: page_routes_def path_segment_def toLowerCase_def lower_char_def)

lemma matchPath_star: "matchPath ''*'' p"
  by (simp add: matchPath_def)

lemma find_app:
  "find P (xs @ ys) = (case find P xs of Some x \<Rightarrow> Some x | None \<Rightarrow> find P ys)"
  by (induction xs) auto

lemma find_unique:
  assumes "x \<in> set xs" and "P x" and "\<forall>y \<in> set xs. P y \<longrightarrow> y = x"
  shows "find P xs = Some x"
  using assms(1,3)
proof (induction xs)
  case Nil
  then show ?case by simp
next
  case (Cons a xs)
  show ?case
  proof (cases "P a")
    case True
    then have "a = x" using Cons.prems(2) by simp
    then show ?thesis using True by simp
  next
    case False
    then have "x \<in> set xs" using Cons.prems(1) assms(2) by auto
    moreover have "\<forall>y \<in> set xs. P y \<longrightarrow> y = x" using Cons.prems(2) by simp
    ultimately have "find P xs = Some x" by (rule Cons.IH)
    then show ?thesis using False by simp
  qed
qed

lemma find_page_route:
  assumes "r \<in> set page_routes" and "matchPath (fst r) p"
  shows "find (\<lambda>r. matchPath (fst r) p) (routes tempo) = Some r"
proof -
  have inj: "inj_on (\<lambda>r. toLowerCase (path_segment (fst r))) (set page_routes)"
    using page_routes_segments by (simp add: distinct_map)
  have u: "y = r" if "y \<in> set page_routes" "matchPath (fst y) p" for y
  proof -
    have sy: "filter (\<lambda>c. c \<noteq> CHR ''/'') (toLowerCase p) = toLowerCase (path_segment (fst y))"
      using page_routes_static [OF that(1)] that(2) by (intro static_match_segment) simp_all
    have sr: "filter (\<lambda>c. c \<noteq> CHR ''/'') (toLowerCase p) = toLowerCase (path_segment (fst r))"
      using page_routes_static [OF assms(1)] assms(2) by (intro static_match_segment) simp_all
    have eq: "toLowerCase (path_segment (fst y)) = toLowerCase (path_segment (fst r))"
      using sy sr by simp
    show ?thesis
      by (rule inj_onD [OF inj eq that(1) assms(1)])
  qed
  have "find (\<lambda>r. matchPath (fst r) p) page_routes = Some r"
  proof (rule find_unique)
    show "r \<in> set page_routes" by (rule assms(1))
    show "matchPath (fst r) p" by (rule assms(2))
    show "\<forall>y \<in> set page_routes. matchPath (fst y) p \<longrightarrow> y = r"
      using u by blast
  qed
  then show ?thesis unfolding routes_def find_app by simp
qed

lemma find_no_page_route:
  assumes "\<forall>r \<in> set page_routes. \<not> matchPath (fst r) p"
    and "\<not> (tempo \<and> matchPath ''tempobook/*'' p)"
  shows "find (\<lambda>r. matchPath (fst r) p) (routes tempo) = Some (''*'', Redirect ''/'')"
proof -
  have "find (\<lambda>r. matchPath (fst r) p) page_routes = None"
    using assms(1) by (auto simp: find_None_iff)
  then show ?thesis
    using assms(2) by (cases tempo) (simp_all add: routes_def find_app matchPath_star)
qed

text \<open>
  C8, as the code has it. A pathname that matches a guarded page route renders a
  loading placeholder while the authentication state is loading; once it has loaded it
  renders a redirect to \<open>/login\<close> without a user and the page with one. Every page
  route but \<open>login\<close> and \<open>register\<close> is guarded, and those two render their page
  whatever the authentication state. A pathname that matches no page route (nor
  \<open>tempobook/*\<close>, where that route is declared) renders a redirect to \<open>/\<close>.
\<close>

theorem routes_guarded_once_loaded:
  "((pat, Protected c) \<in> set page_routes \<and> matchPath pat pathname \<longrightarrow>
      AppRoutes tempo ctx pathname =
        (if auth_isLoading ctx then LoadingAuthentication
         else if auth_user ctx = None then Navigate ''/login''
         else Page c))
   \<and> ((pat, Public c) \<in> set page_routes \<and> matchPath pat pathname \<longrightarrow>
        AppRoutes tempo ctx pathname = Page c)
   \<and> map fst (filter (\<lambda>r. \<exists>c. snd r = Public c) page_routes) = [''login'', ''register'']
   \<and> ((\<forall>r \<in> set page_routes. \<not> matchPath (fst r) pathname)
        \<and> \<not> (tempo \<and> matchPath ''tempobook/*'' pathname) \<longrightarrow>
        AppRoutes tempo ctx pathname = Navigate ''/'')"
proof (intro conjI impI)
  assume "(pat, Protected c) \<in> set page_routes \<and> matchPath pat pathname"
  then have "find (\<lambda>r. matchPath (fst r) pathname) (routes tempo) = Some (pat, Protected c)"
    using find_page_route [of "(pat, Protected c)" pathname tempo] by simp
  then show "AppRoutes tempo ctx pathname =
        (if auth_isLoading ctx then LoadingAuthentication
         else if auth_user ctx = None then Navigate ''/login''
         else Page c)"
    by (simp add: AppRoutes_def element_of_def ProtectedRoute_def)
next
  assume "(pat, Public c) \<in> set page_routes \<and> matchPath pat pathname"
  then have "find (\<lambda>r. matchPath (fst r) pathname) (routes tempo) = Some (pat, Public c)"
    using find_page_route [of "(pat, Public c)" pathname tempo] by simp
  then show "AppRoutes tempo ctx pathname = Page c"
    by (simp add: AppRoutes_def element_of_def)
next
  show "map fst (filter (\<lambda>r. \<exists>c. snd r = Public c) page_routes) = [''login'', ''register'']"
    by (simp add: page_routes_def)
next
  assume "(\<forall>r \<in> set page_routes. \<not> matchPath (fst r) pathname)
        \<and> \<not> (tempo \<and> matchPath ''tempobook/*'' pathname)"
  then have "find (\<lambda>r. matchPath (fst r) pathname) (routes tempo) = Some (''*'', Redirect ''/'')"
    using find_no_page_route [of pathname tempo] by blast
  then show "AppRoutes tempo ctx pathname = Navigate ''/''"
    by (simp add: AppRoutes_def element_of_def)
qed

theorem routes_guarded_once_loaded_witness:
  "(''employees'', Protected EmployeesPage) \<in> set page_routes
   \<and> matchPath ''employees'' ''/employees''
   \<and> AppRoutes False \<lparr>auth_user = None, auth_isLoading = False\<rparr> ''/employees'' = Navigate ''/login''
   \<and> AppRoutes False \<lparr>auth_user = Some ''U1'', auth_isLoading = False\<rparr> ''/employees''
       = Page EmployeesPage
   \<and> (''login'', Public LoginPage) \<in> set page_routes
   \<and> matchPath ''login'' ''/Login/''
   \<and> AppRoutes False \<lparr>auth_user = None, auth_isLoading = False\<rparr> ''/Login/'' = Page LoginPage
   \<and> list_all (\<lambda>r. \<not> matchPath (fst r) ''/payroll'') page_routes
   \<and> AppRoutes False \<lparr>auth_user = Some ''U1'', auth_isLoading = False\<rparr> ''/payroll'' = Navigate ''/''"
proof -
  have m1: "(''employees'', Protected EmployeesPage) \<in> set page_routes \<and> matchPath ''employees'' ''/employees''"
    by (simp add: page_routes_def matchPath_def Let_def path_segment_def toLowerCase_def lower_char_def)
  have m2: "(''login'', Public LoginPage) \<in> set page_routes \<and> matchPath ''login'' ''/Login/''"
    by (simp add: page_routes_def matchPath_def Let_def path_segment_def toLowerCase_def lower_char_def)
  have m3: "list_all (\<lambda>r. \<not> matchPath (fst r) ''/payroll'') page_routes"
    by (simp add: page_routes_def matchPath_def Let_def path_segment_def toLowerCase_def lower_char_def)
  have m3': "(\<forall>r \<in> set page_routes. \<not> matchPath (fst r) ''/payroll'')
             \<and> \<not> (False \<and> matchPath ''tempobook/*'' ''/payroll'')"
    using m3 by (simp add: list_all_iff)
  have a: "AppRoutes False \<lparr>auth_user = None, auth_isLoading = False\<rparr> ''/employees'' = Navigate ''/login''"
    using routes_guarded_once_loaded [of "''employees''" EmployeesPage "''/employees''" False
        "\<lparr>auth_user = None, auth_isLoading = False\<rparr>", THEN conjunct1, THEN mp, OF m1]
    by simp
  have b: "AppRoutes False \<lparr>auth_user = Some ''U1'', auth_isLoading = False\<rparr> ''/employees''
            = Page EmployeesPage"
    using routes_guarded_once_loaded [of "''employees''" EmployeesPage "''/employees''" False
        "\<lparr>auth_user = Some ''U1'', auth_isLoading = False\<rparr>", THEN conjunct1, THEN mp, OF m1]
    by simp
  have c: "AppRoutes False \<lparr>auth_user = None, auth_isLoading = False\<rparr> ''/Login/'' = Page LoginPage"
    by (rule routes_guarded_once_loaded [of "''login''" LoginPage "''/Login/''" False
        "\<lparr>auth_user = None, auth_isLoading = False\<rparr>", THEN conjunct2, THEN conjunct1, THEN mp, OF m2])
  have d: "AppRoutes False \<lparr>auth_user = Some ''U1'', auth_isLoading = False\<rparr> ''/payroll'' = Navigate ''/''"
    by (rule routes_guarded_once_loaded [of "''x''" Home "''/payroll''" False
        "\<lparr>auth_user = Some ''U1'', auth_isLoading = False\<rparr>",
        THEN conjunct2, THEN conjunct2, THEN conjunct2, THEN mp, OF m3'])
  show ?thesis using m1 m2 m3 a b c d by simp
qed

text \<open>
  With no user and the authentication state still loading, \<open>/employees\<close> renders the
  loading placeholder, not the redirect to \<open>/login\<close>.
\<close>

theorem route_while_loading_counterexample:
  "auth_user loading_ctx = None
   \<and> (''employees'', Protected EmployeesPage) \<in> set page_routes
   \<and> AppRoutes False loading_ctx ''/employees'' = LoadingAuthentication
   \<and> AppRoutes False loading_ctx ''/employees'' \<noteq> Navigate ''/login''"
  by (simp add: loading_ctx_def AppRoutes_def routes_def page_routes_def matchPath_def Let_def
        path_segment_def toLowerCase_def lower_char_def element_of_def ProtectedRoute_def)

end
